theory Spec2Isabelle
  imports Complex_Main "HOL-Library.Stream"
begin

section \<open>PathDiverge: the career simulation engine (backend/simulator.py)\<close>

text \<open>
  The engine is a Markov chain over eleven career states whose rows are rescaled by the
  decisions of a profile. Python ints are modelled as \<open>int\<close> (or \<open>nat\<close> for loop
  indices), dictionaries as association lists in insertion order, and the module-level
  random generator as an explicit stream of draws that every function consuming
  randomness takes and returns. The arithmetic inside a trajectory (scores,
  probabilities, transition rows) is exact arithmetic on reals. The quotients, the
  difference and the roundings whose digits the batch runner, \<open>run_simulation\<close> and
  \<open>run_comparative_analysis\<close> report are those of Python's binary64 doubles.
\<close>

subsection \<open>States and the base transition table\<close>

datatype state =
  EntryLevel | Junior | MidLevel | Senior | Lead | Manager | Director | VP | CSuite
  | Retired | Unemployed

definition STATES :: "state list" where
  "STATES = [EntryLevel, Junior, MidLevel, Senior, Lead, Manager, Director, VP, CSuite,
             Retired, Unemployed]"

type_synonym row = "(state \<times> real) list"

text \<open>Dictionary operations on an association list: \<open>d.get(k, default)\<close>, \<open>k in d\<close>, \<open>d[k] = v\<close>
  (an existing key keeps its position, a new key goes to the end), \<open>d.keys()\<close>,
  \<open>d.values()\<close>.\<close>

fun dict_get :: "('k \<times> 'v) list \<Rightarrow> 'k \<Rightarrow> 'v \<Rightarrow> 'v" where
  "dict_get [] k d = d"
| "dict_get ((k', v) # m) k d = (if k' = k then v else dict_get m k d)"

fun dict_set :: "('k \<times> 'v) list \<Rightarrow> 'k \<Rightarrow> 'v \<Rightarrow> ('k \<times> 'v) list" where
  "dict_set [] k v = [(k, v)]"
| "dict_set ((k', v') # m) k v = (if k' = k then (k, v) # m else (k', v') # dict_set m k v)"

definition dict_keys :: "('k \<times> 'v) list \<Rightarrow> 'k list" where
  "dict_keys m = map fst m"

definition dict_values :: "('k \<times> 'v) list \<Rightarrow> 'v list" where
  "dict_values m = map snd m"

definition dict_in :: "'k \<Rightarrow> ('k \<times> 'v) list \<Rightarrow> bool" where
  "dict_in k m = (k \<in> set (dict_keys m))"

definition TRANSITIONS :: "state \<Rightarrow> row" where
  "TRANSITIONS s = (case s of
     EntryLevel \<Rightarrow> [(EntryLevel, 45/100), (Junior, 30/100), (MidLevel, 5/100), (Unemployed, 20/100)]
   | Junior \<Rightarrow> [(Junior, 40/100), (MidLevel, 30/100), (Senior, 5/100), (EntryLevel, 10/100),
                (Unemployed, 15/100)]
   | MidLevel \<Rightarrow> [(MidLevel, 50/100), (Senior, 20/100), (Lead, 5/100), (Junior, 10/100),
                  (Unemployed, 15/100)]
   | Senior \<Rightarrow> [(Senior, 55/100), (Lead, 15/100), (Manager, 10/100), (MidLevel, 10/100),
                (Unemployed, 10/100)]
   | Lead \<Rightarrow> [(Lead, 50/100), (Manager, 20/100), (Director, 5/100), (Senior, 15/100),
              (Unemployed, 10/100)]
   | Manager \<Rightarrow> [(Manager, 55/100), (Director, 15/100), (Lead, 15/100), (Senior, 5/100),
                 (Unemployed, 10/100)]
   | Director \<Rightarrow> [(Director, 60/100), (VP, 10/100), (Manager, 15/100), (Unemployed, 15/100)]
   | VP \<Rightarrow> [(VP, 65/100), (CSuite, 8/100), (Director, 15/100), (Unemployed, 12/100)]
   | CSuite \<Rightarrow> [(CSuite, 70/100), (VP, 10/100), (Unemployed, 10/100), (Retired, 10/100)]
   | Retired \<Rightarrow> [(Retired, 1)]
   | Unemployed \<Rightarrow> [(Unemployed, 40/100), (EntryLevel, 30/100), (Junior, 18/100),
                    (MidLevel, 10/100), (Retired, 2/100)])"

subsection \<open>CareerProfile\<close>

record career_profile =
  early_specialization :: bool
  risk_tolerance :: string
  unemployment_history :: "nat list"
  burnout_score :: real
  momentum_score :: real
  total_demotions :: int
  total_promotions :: int

text \<open>\<open>CareerProfile.__init__\<close>.\<close>

definition CareerProfile :: "bool \<Rightarrow> string \<Rightarrow> career_profile" where
  "CareerProfile early_spec risk =
     \<lparr> early_specialization = early_spec, risk_tolerance = risk, unemployment_history = [],
       burnout_score = 0, momentum_score = 0, total_demotions = 0, total_promotions = 0 \<rparr>"

text \<open>The \<open>stress_levels\<close> dictionary of \<open>update_burnout\<close>, read with \<open>.get(state, 0)\<close>:
  Retired has no entry and reads 0.\<close>

fun stress_levels :: "state \<Rightarrow> real" where
  "stress_levels CSuite = 5"
| "stress_levels VP = 4"
| "stress_levels Director = 3"
| "stress_levels Manager = 2"
| "stress_levels Lead = 2"
| "stress_levels Senior = 1"
| "stress_levels MidLevel = 0"
| "stress_levels Junior = 0"
| "stress_levels EntryLevel = 0"
| "stress_levels Unemployed = - 2"
| "stress_levels Retired = 0"

definition update_burnout :: "career_profile \<Rightarrow> state \<Rightarrow> nat \<Rightarrow> career_profile" where
  "update_burnout self current_state years_worked =
     (let self = self\<lparr>burnout_score := burnout_score self + stress_levels current_state\<rparr>
      in self\<lparr>burnout_score := max 0 (burnout_score self - 1/2)\<rparr>)"

text \<open>The \<open>state_ranks\<close> dictionary of \<open>update_momentum\<close> and \<open>get_peak_position\<close>.\<close>

fun state_ranks :: "state \<Rightarrow> int" where
  "state_ranks EntryLevel = 1"
| "state_ranks Junior = 2"
| "state_ranks MidLevel = 3"
| "state_ranks Senior = 4"
| "state_ranks Lead = 5"
| "state_ranks Manager = 6"
| "state_ranks Director = 7"
| "state_ranks VP = 8"
| "state_ranks CSuite = 9"
| "state_ranks Unemployed = 0"
| "state_ranks Retired = 0"

definition update_momentum :: "career_profile \<Rightarrow> state \<Rightarrow> state \<Rightarrow> career_profile" where
  "update_momentum self old_state new_state =
     (let old_rank = state_ranks old_state;
          new_rank = state_ranks new_state;
          self = (if new_rank > old_rank then
                    self\<lparr>momentum_score := momentum_score self + 2,
                         total_promotions := total_promotions self + 1\<rparr>
                  else if new_rank < old_rank then
                    self\<lparr>momentum_score := max 0 (momentum_score self - 3),
                         total_demotions := total_demotions self + 1\<rparr>
                  else self)
      in self\<lparr>momentum_score := max 0 (momentum_score self * (9/10))\<rparr>)"

subsection \<open>Retirement policy\<close>

definition get_retirement_probability ::
    "career_profile \<Rightarrow> state \<Rightarrow> nat \<Rightarrow> int \<Rightarrow> real" where
  "get_retirement_probability profile current_state years_worked age =
     (if current_state = Retired then 1
      else if age < 55 then 0
      else
        let base_prob = (if age < 58 then 5/1000
                         else if age < 62 then 3/100
                         else if age < 65 then 12/100
                         else if age < 68 then 30/100
                         else 60/100);
            burnout_factor = min (burnout_score profile / 150) (15/100);
            momentum_factor = - min (momentum_score profile / 80) (10/100);
            base_prob = (if age > 60 \<and> current_state \<in> {EntryLevel, Junior, MidLevel}
                         then base_prob + 10/100 else base_prob);
            base_prob = (if current_state \<in> {CSuite, VP, Director}
                         then base_prob - 5/100 else base_prob);
            base_prob = (if current_state = Unemployed \<and> age > 58
                         then base_prob + 15/100 else base_prob)
        in max 0 (min 1 (base_prob + burnout_factor + momentum_factor)))"

subsection \<open>Transition modifier\<close>

text \<open>\<open>modified[k] = modified.get(k, 0) * c\<close>: an absent key is created with value 0.\<close>

definition scale_entry :: "row \<Rightarrow> state \<Rightarrow> real \<Rightarrow> row" where
  "scale_entry modified k c = dict_set modified k (dict_get modified k 0 * c)"

text \<open>The body of \<open>apply_decision_modifiers\<close> up to the comment \<open>Normalize probabilities\<close>:
  the copy of the base row after the specialization and the risk-tolerance effects.\<close>

definition specialization_effect :: "career_profile \<Rightarrow> row \<Rightarrow> state \<Rightarrow> row" where
  "specialization_effect profile modified current_state =
     (if early_specialization profile then
        (if current_state \<in> {EntryLevel, Junior} then
           foldl (\<lambda>m s. if s \<in> {Junior, MidLevel, Senior} then scale_entry m s (13/10) else m)
                 modified (dict_keys modified)
         else if current_state \<in> {Senior, Lead} then
           scale_entry modified current_state (12/10)
         else modified)
      else
        (if current_state \<in> {Manager, Director, VP} then
           foldl (\<lambda>m s. if dict_in s m then scale_entry m s (125/100) else m)
                 modified [Director, VP, CSuite]
         else modified))"

definition risk_effect :: "career_profile \<Rightarrow> row \<Rightarrow> state \<Rightarrow> row" where
  "risk_effect profile modified current_state =
     (if risk_tolerance profile = ''high'' then
        (if current_state = Unemployed then
           scale_entry (scale_entry modified MidLevel (15/10)) Unemployed (75/100)
         else if current_state \<in> {Senior, Lead, Manager} then
           foldl (\<lambda>m s. if dict_in s m \<and> s \<noteq> current_state then scale_entry m s (135/100) else m)
                 modified [Lead, Manager, Director]
         else if current_state \<in> {Director, VP} then
           foldl (\<lambda>m s. if dict_in s m then scale_entry m s (140/100) else m)
                 modified [VP, CSuite]
         else modified)
      else if risk_tolerance profile = ''low'' then
        (let modified = (if current_state = Unemployed then
                           scale_entry (scale_entry modified EntryLevel (13/10)) Unemployed (105/100)
                         else modified)
         in if dict_in current_state modified then scale_entry modified current_state (115/100)
            else modified)
      else modified)"

definition modified_row :: "career_profile \<Rightarrow> row \<Rightarrow> state \<Rightarrow> row" where
  "modified_row profile transitions current_state =
     risk_effect profile (specialization_effect profile transitions current_state) current_state"

definition apply_decision_modifiers :: "career_profile \<Rightarrow> row \<Rightarrow> state \<Rightarrow> nat \<Rightarrow> row" where
  "apply_decision_modifiers profile transitions current_state years_worked =
     (let modified = modified_row profile transitions current_state;
          total = sum_list (dict_values modified)
      in if total > 0 then map (\<lambda>(k, v). (k, v / total)) modified else modified)"

subsection \<open>Peak position\<close>

text \<open>The loop of \<open>get_peak_position\<close> carries \<open>(max_rank, peak_state)\<close>.\<close>

fun peak_loop :: "state list \<Rightarrow> int \<times> state \<Rightarrow> int \<times> state" where
  "peak_loop [] acc = acc"
| "peak_loop (s # career) (max_rank, peak_state) =
     (let rank = state_ranks s
      in if rank > max_rank then peak_loop career (rank, s)
         else peak_loop career (max_rank, peak_state))"

definition get_peak_position :: "state list \<Rightarrow> state" where
  "get_peak_position career = snd (peak_loop career (0, EntryLevel))"

subsection \<open>The random generator\<close>

text \<open>
  The generator is the stream of the values that successive calls of \<open>random.random()\<close>
  return. \<open>random.choices(population, weights, k=1)[0]\<close> is the standard library's:
  it accumulates the weights, rejects a weight list of another length than the population
  and a total that is not positive, and returns the element at
  \<open>bisect_right(cum_weights, random() * total, 0, n - 1)\<close>.
\<close>

type_synonym rng = "real stream"

datatype error = ZeroDivisionError | ValueError | IndexError

definition random_random :: "rng \<Rightarrow> real \<times> rng" where
  "random_random g = (shd g, stl g)"

fun accumulate_from :: "real \<Rightarrow> real list \<Rightarrow> real list" where
  "accumulate_from acc [] = []"
| "accumulate_from acc (w # ws) = (acc + w) # accumulate_from (acc + w) ws"

definition accumulate :: "real list \<Rightarrow> real list" where
  "accumulate ws = accumulate_from 0 ws"

function bisect_right :: "real list \<Rightarrow> real \<Rightarrow> nat \<Rightarrow> nat \<Rightarrow> nat" where
  "bisect_right a x lo hi =
     (if lo < hi then
        (let mid = (lo + hi) div 2
         in if x < a ! mid then bisect_right a x lo mid else bisect_right a x (mid + 1) hi)
      else lo)"
  by pat_completeness auto
termination
  by (relation "measure (\<lambda>(a, x, lo, hi). hi - lo)") auto

declare bisect_right.simps [simp del]

definition choices :: "state list \<Rightarrow> real list \<Rightarrow> rng \<Rightarrow> error + (state \<times> rng)" where
  "choices population weights g =
     (let n = length population;
          cum_weights = accumulate weights
      in if length cum_weights \<noteq> n then Inl ValueError
         else if cum_weights = [] then Inl IndexError
         else
           let total = last cum_weights
           in if total \<le> 0 then Inl ValueError
              else
                let (u, g') = random_random g
                in Inr (population ! bisect_right cum_weights (u * total) 0 (n - 1), g'))"

subsection \<open>Trajectory simulator\<close>

record sim_state =
  s_current_state :: state
  s_career_path :: "state list"
  s_current_age :: int
  s_profile :: career_profile
  s_rng :: rng

text \<open>\<open>range(n)\<close>: empty when \<open>n\<close> is not positive.\<close>

definition py_range :: "int \<Rightarrow> nat list" where
  "py_range n = [0..<nat n]"

text \<open>One pass through the body of the \<open>for year in range(max_years)\<close> loop.\<close>

definition simulate_year :: "nat \<Rightarrow> sim_state \<Rightarrow> error + sim_state" where
  "simulate_year year st0 =
     (let st = st0\<lparr>s_current_age := s_current_age st0 + 1\<rparr>
      in if s_current_state st = Retired then
           Inr (st\<lparr>s_career_path := s_career_path st @ [s_current_state st]\<rparr>)
         else
           let st = st\<lparr>s_profile := update_burnout (s_profile st) (s_current_state st) year\<rparr>;
               retirement_prob = get_retirement_probability (s_profile st) (s_current_state st)
                                   year (s_current_age st);
               (r, g) = random_random (s_rng st);
               st = st\<lparr>s_rng := g\<rparr>
           in if r < retirement_prob then
                Inr (st\<lparr>s_current_state := Retired,
                        s_career_path := s_career_path st @ [Retired]\<rparr>)
              else
                let base_transitions = TRANSITIONS (s_current_state st);
                    modified_transitions =
                      apply_decision_modifiers (s_profile st) base_transitions
                        (s_current_state st) year;
                    next_states = dict_keys modified_transitions;
                    probabilities = dict_values modified_transitions;
                    old_state = s_current_state st
                in case choices next_states probabilities (s_rng st) of
                     Inl e \<Rightarrow> Inl e
                   | Inr (next_state, g') \<Rightarrow>
                       let st = st\<lparr>s_rng := g',
                                   s_profile := update_momentum (s_profile st) old_state next_state\<rparr>;
                           st = (if next_state = Unemployed then
                                   st\<lparr>s_profile := (s_profile st)
                                        \<lparr>unemployment_history :=
                                           unemployment_history (s_profile st) @ [year]\<rparr>\<rparr>
                                 else st)
                       in Inr (st\<lparr>s_career_path := s_career_path st @ [next_state],
                                  s_current_state := next_state\<rparr>))"

fun simulate_years :: "nat list \<Rightarrow> sim_state \<Rightarrow> error + sim_state" where
  "simulate_years [] st = Inr st"
| "simulate_years (year # years) st =
     (case simulate_year year st of
        Inl e \<Rightarrow> Inl e
      | Inr st' \<Rightarrow> simulate_years years st')"

definition simulate_career ::
    "int \<Rightarrow> int \<Rightarrow> career_profile option \<Rightarrow> rng
       \<Rightarrow> error + (state list \<times> career_profile \<times> rng)" where
  "simulate_career max_years starting_age profile g =
     (let profile = (case profile of None \<Rightarrow> CareerProfile False ''medium'' | Some p \<Rightarrow> p);
          st = \<lparr> s_current_state = EntryLevel, s_career_path = [EntryLevel],
                 s_current_age = starting_age, s_profile = profile, s_rng = g \<rparr>
      in case simulate_years (py_range max_years) st of
           Inl e \<Rightarrow> Inl e
         | Inr st' \<Rightarrow> Inr (s_career_path st', s_profile st', s_rng st'))"

subsection \<open>Doubles\<close>

text \<open>
  A Python float is a binary64 double: a real of the form \<open>m * 2 ^ (e - 52)\<close> with an
  integer \<open>m\<close> of at most 53 bits and \<open>- 1022 \<le> e \<le> 1023\<close>. An operation returns the
  double nearest to its exact result, a tie going to the even \<open>m\<close>. \<open>float_exponent\<close>
  finds the exponent \<open>e\<close> of a real (\<open>2 ^ e \<le> \<bar>x\<bar> < 2 ^ (e + 1)\<close>, and \<open>- 1022\<close> below the
  normal range) by searching down from \<open>- 1\<close> or up from 0; \<open>py_float\<close> rounds a real to
  the nearest double. Overflow is out of reach of the quantities rounded here, which lie
  between \<open>- 1\<close> and 1.
\<close>

definition round_half_even :: "real \<Rightarrow> int" where
  "round_half_even x =
     (let f = \<lfloor>x\<rfloor>; d = x - of_int f
      in if d < 1/2 then f else if d > 1/2 then f + 1 else if even f then f else f + 1)"

definition pow2 :: "int \<Rightarrow> real" where
  "pow2 e = (if 0 \<le> e then 2 ^ nat e else 1 / 2 ^ nat (- e))"

fun exp_down :: "nat \<Rightarrow> real \<Rightarrow> int \<Rightarrow> int" where
  "exp_down 0 x e = e"
| "exp_down (Suc n) x e = (if pow2 e \<le> x then e else exp_down n x (e - 1))"

fun exp_up :: "nat \<Rightarrow> real \<Rightarrow> int \<Rightarrow> int" where
  "exp_up 0 x e = e"
| "exp_up (Suc n) x e = (if x < pow2 (e + 1) then e else exp_up n x (e + 1))"

definition float_exponent :: "real \<Rightarrow> int" where
  "float_exponent x =
     (if \<bar>x\<bar> < 1 then exp_down 1021 \<bar>x\<bar> (- 1) else exp_up 1023 \<bar>x\<bar> 0)"

definition py_float :: "real \<Rightarrow> real" where
  "py_float x =
     (let ulp = pow2 (float_exponent x - 52)
      in of_int (round_half_even (x / ulp)) * ulp)"

text \<open>\<open>round(x, ndigits)\<close> on a double \<open>x\<close>: the exact value of \<open>x\<close> is rounded to the
  nearest multiple of \<open>10 ^ (- ndigits)\<close>, a tie going to the even multiple, and the
  result is the double nearest to that decimal.\<close>

definition py_round :: "real \<Rightarrow> nat \<Rightarrow> real" where
  "py_round x ndigits = py_float (of_int (round_half_even (x * 10 ^ ndigits)) / 10 ^ ndigits)"

subsection \<open>Batch runner\<close>

record career_data =
  cd_career :: "state list"
  cd_peak :: state
  cd_profile :: career_profile
  cd_final_state :: state

record batch_result =
  director_prob :: real
  retire_ages :: "int list"
  unemployment_durations :: "nat list"
  peak_counts :: "(state \<times> int) list"
  total :: int

text \<open>\<open>career.index("Retired")\<close> under the guard \<open>"Retired" in career\<close>: the first
  position of the element, \<open>None\<close> when the guard fails.\<close>

fun list_index :: "'a list \<Rightarrow> 'a \<Rightarrow> nat option" where
  "list_index [] x = None"
| "list_index (y # ys) x = (if y = x then Some 0 else map_option Suc (list_index ys x))"

text \<open>The \<open>for _ in range(n_simulations)\<close> loop of \<open>run_batch\<close>. The closure variables
  \<open>early_spec\<close>, \<open>risk_level\<close>, \<open>max_years\<close>, \<open>starting_age\<close> are parameters.\<close>

fun run_careers ::
    "bool \<Rightarrow> string \<Rightarrow> int \<Rightarrow> int \<Rightarrow> nat list \<Rightarrow> career_data list \<Rightarrow> rng
       \<Rightarrow> error + (career_data list \<times> rng)" where
  "run_careers early_spec risk_level max_years starting_age [] careers_data g =
     Inr (careers_data, g)"
| "run_careers early_spec risk_level max_years starting_age (i # rest) careers_data g =
     (case simulate_career max_years starting_age
             (Some (CareerProfile early_spec risk_level)) g of
        Inl e \<Rightarrow> Inl e
      | Inr (career, prof, g') \<Rightarrow>
          run_careers early_spec risk_level max_years starting_age rest
            (careers_data @ [\<lparr> cd_career = career, cd_peak = get_peak_position career,
                                cd_profile = prof, cd_final_state = last career \<rparr>]) g')"

definition count_peaks :: "career_data list \<Rightarrow> (state \<times> int) list" where
  "count_peaks careers_data =
     foldl (\<lambda>pc r. dict_set pc (cd_peak r) (dict_get pc (cd_peak r) 0 + 1)) [] careers_data"

definition run_batch ::
    "bool \<Rightarrow> string \<Rightarrow> int \<Rightarrow> int \<Rightarrow> int \<Rightarrow> rng \<Rightarrow> error + (batch_result \<times> rng)" where
  "run_batch early_spec risk_level max_years starting_age n_simulations g =
     (case run_careers early_spec risk_level max_years starting_age
             (py_range n_simulations) [] g of
        Inl e \<Rightarrow> Inl e
      | Inr (careers_data, g') \<Rightarrow>
          let director_plus_count =
                int (length (filter (\<lambda>r. state_ranks (cd_peak r) \<ge> 7) careers_data))
          in if length careers_data = 0 then Inl ZeroDivisionError
             else Inr (\<lparr> director_prob =
                            py_float (real_of_int director_plus_count
                                      / real (length careers_data)),
                          retire_ages =
                            List.map_filter
                              (\<lambda>r. map_option (\<lambda>i. starting_age + int i)
                                     (list_index (cd_career r) Retired))
                              careers_data,
                          unemployment_durations =
                            map (\<lambda>r. length (unemployment_history (cd_profile r))) careers_data,
                          peak_counts = count_peaks careers_data,
                          total = int (length careers_data) \<rparr>, g'))"

subsection \<open>run\_simulation\<close>

text \<open>The configuration dictionary: each key may be absent, \<open>config.get(key, default)\<close>
  supplies the default.\<close>

record config =
  cfg_specialization :: "string option"
  cfg_risk_level :: "string option"
  cfg_iterations :: "int option"
  cfg_max_years :: "int option"
  cfg_starting_age :: "int option"
  cfg_compute_ci :: "bool option"
  cfg_ci_iterations :: "int option"

definition config_get :: "'a option \<Rightarrow> 'a \<Rightarrow> 'a" where
  "config_get v d = (case v of None \<Rightarrow> d | Some x \<Rightarrow> x)"

text \<open>The \<open>meta.config\<close> echo of the result.\<close>

record meta_config =
  mc_specialization :: string
  mc_risk_level :: string
  mc_iterations :: int
  mc_max_years :: int
  mc_starting_age :: int
  mc_compute_ci :: bool

text \<open>
  The result dictionary. The fields that the source computes with numpy are kept as the
  samples numpy is applied to: \<open>bootstrap_probs\<close> (present when \<open>compute_ci\<close> holds; its
  2.5th and 97.5th percentiles are \<open>ci_lower\<close> and \<open>ci_upper\<close>), \<open>retire_ages\<close> (mean and
  standard deviation form \<open>retirement_age\<close>) and \<open>unemployment_durations\<close>.
  \<open>np.percentile\<close> raises \<open>IndexError\<close> on an empty sample, which is what the bootstrap
  loop leaves when \<open>ci_iterations\<close> is not positive.
\<close>

record simulation_result =
  director_probability_mean :: real
  bootstrap_probs :: "real list option"
  retirement_age_sample :: "int list"
  unemployment_years_sample :: "nat list"
  peak_role :: row
  total_simulations :: int
  meta :: meta_config

text \<open>The bootstrap loop \<open>for _ in range(ci_iterations)\<close>.\<close>

fun bootstrap_loop ::
    "bool \<Rightarrow> string \<Rightarrow> int \<Rightarrow> int \<Rightarrow> int \<Rightarrow> nat list \<Rightarrow> real list \<Rightarrow> rng
       \<Rightarrow> error + (real list \<times> rng)" where
  "bootstrap_loop early_spec risk_level max_years starting_age iterations [] probs g =
     Inr (probs, g)"
| "bootstrap_loop early_spec risk_level max_years starting_age iterations (i # rest) probs g =
     (case run_batch early_spec risk_level max_years starting_age iterations g of
        Inl e \<Rightarrow> Inl e
      | Inr (batch, g') \<Rightarrow>
          bootstrap_loop early_spec risk_level max_years starting_age iterations rest
            (probs @ [director_prob batch]) g')"

definition run_simulation :: "config \<Rightarrow> rng \<Rightarrow> error + (simulation_result \<times> rng)" where
  "run_simulation cfg g =
     (let early_spec = (config_get (cfg_specialization cfg) ''none'' = ''early'');
          risk_level = config_get (cfg_risk_level cfg) ''medium'';
          iterations = config_get (cfg_iterations cfg) 2500;
          max_years = config_get (cfg_max_years cfg) 45;
          starting_age = config_get (cfg_starting_age cfg) 22;
          compute_ci = config_get (cfg_compute_ci cfg) False;
          ci_iterations = config_get (cfg_ci_iterations cfg) 30
      in case run_batch early_spec risk_level max_years starting_age iterations g of
           Inl e \<Rightarrow> Inl e
         | Inr (primary_results, g1) \<Rightarrow>
             (case (if compute_ci then
                      (case bootstrap_loop early_spec risk_level max_years starting_age
                              iterations (py_range ci_iterations) [] g1 of
                         Inl e \<Rightarrow> Inl e
                       | Inr (probs, g2) \<Rightarrow>
                           if probs = [] then Inl IndexError else Inr (Some probs, g2))
                    else Inr (None, g1)) of
                Inl e \<Rightarrow> Inl e
              | Inr (ci, g2) \<Rightarrow>
                  Inr (\<lparr> director_probability_mean = py_round (director_prob primary_results) 4,
                         bootstrap_probs = ci,
                         retirement_age_sample = retire_ages primary_results,
                         unemployment_years_sample = unemployment_durations primary_results,
                         peak_role =
                           map (\<lambda>(k, v). (k, py_round (py_float (real_of_int v
                                                        / real_of_int (total primary_results))) 4))
                               (peak_counts primary_results),
                         total_simulations = iterations,
                         meta = \<lparr> mc_specialization = (if early_spec then ''early'' else ''none''),
                                  mc_risk_level = risk_level,
                                  mc_iterations = iterations,
                                  mc_max_years = max_years,
                                  mc_starting_age = starting_age,
                                  mc_compute_ci = compute_ci \<rparr> \<rparr>, g2)))"

subsection \<open>run\_comparative\_analysis\<close>

record comparative_result =
  control :: simulation_result
  specialist :: simulation_result
  risktaker :: simulation_result
  specialist_vs_control :: real
  risktaker_vs_control :: real

text \<open>An entry of the \<open>interventions\<close> dictionary after the loop has stored \<open>iterations\<close>
  and \<open>compute_ci\<close> in it.\<close>

definition intervention :: "string \<Rightarrow> string \<Rightarrow> int \<Rightarrow> bool \<Rightarrow> config" where
  "intervention spec risk iterations compute_ci =
     \<lparr> cfg_specialization = Some spec, cfg_risk_level = Some risk,
       cfg_iterations = Some iterations, cfg_max_years = None, cfg_starting_age = None,
       cfg_compute_ci = Some compute_ci, cfg_ci_iterations = None \<rparr>"

definition run_comparative_analysis ::
    "int \<Rightarrow> bool \<Rightarrow> rng \<Rightarrow> error + (comparative_result \<times> rng)" where
  "run_comparative_analysis iterations compute_ci g =
     (case run_simulation (intervention ''none'' ''medium'' iterations compute_ci) g of
        Inl e \<Rightarrow> Inl e
      | Inr (r_control, g1) \<Rightarrow>
     (case run_simulation (intervention ''early'' ''medium'' iterations compute_ci) g1 of
        Inl e \<Rightarrow> Inl e
      | Inr (r_specialist, g2) \<Rightarrow>
     (case run_simulation (intervention ''none'' ''high'' iterations compute_ci) g2 of
        Inl e \<Rightarrow> Inl e
      | Inr (r_risktaker, g3) \<Rightarrow>
          let control_prob = director_probability_mean r_control
          in Inr (\<lparr> control = r_control, specialist = r_specialist, risktaker = r_risktaker,
                    specialist_vs_control =
                      py_round (py_float (director_probability_mean r_specialist
                                          - control_prob)) 4,
                    risktaker_vs_control =
                      py_round (py_float (director_probability_mean r_risktaker
                                          - control_prob)) 4 \<rparr>,
                  g3))))"

subsection \<open>Sequences of profile updates\<close>

text \<open>A call of one of the two update methods of a profile, and a profile after a
  sequence of such calls.\<close>

datatype update = Burnout state nat | Momentum state state

fun apply_update :: "career_profile \<Rightarrow> update \<Rightarrow> career_profile" where
  "apply_update p (Burnout s y) = update_burnout p s y"
| "apply_update p (Momentum old new) = update_momentum p old new"

definition apply_updates :: "career_profile \<Rightarrow> update list \<Rightarrow> career_profile" where
  "apply_updates p us = foldl apply_update p us"

definition scores_nonneg :: "career_profile \<Rightarrow> bool" where
  "scores_nonneg p = (0 \<le> burnout_score p \<and> 0 \<le> momentum_score p)"

subsection \<open>Absorption\<close>

text \<open>A trajectory is absorbing when nothing but Retired follows a Retired entry. The
  loop of \<open>simulate_career\<close> keeps its path non-empty, ending in the current state, and
  absorbing.\<close>

fun absorbing :: "state list \<Rightarrow> bool" where
  "absorbing [] = True"
| "absorbing (s # path) = ((s = Retired \<longrightarrow> (\<forall>t \<in> set path. t = Retired)) \<and> absorbing path)"

definition sim_inv :: "sim_state \<Rightarrow> bool" where
  "sim_inv st = (s_career_path st \<noteq> [] \<and> last (s_career_path st) = s_current_state st
                 \<and> absorbing (s_career_path st))"

subsection \<open>Concrete draws\<close>

text \<open>Draws under which a career leaves Entry Level for Unemployed in its first year
  and Unemployed for Retired in its second: both retirement trials fail (a draw of 0 is
  not below a probability of 0), the weighted choices receive 0.9 and 0.99.\<close>

definition early_exit_draws :: rng where
  "early_exit_draws = 0 ## (9/10) ## 0 ## (99/100) ## sconst 0"

subsection \<open>Peak histogram\<close>

text \<open>What the counting loop of \<open>run_batch\<close> maintains of \<open>peak_counts\<close>: keys are
  distinct, counts are not negative, and no key has rank 0.\<close>

definition counts_ok :: "(state \<times> int) list \<Rightarrow> bool" where
  "counts_ok pc = (distinct (dict_keys pc) \<and> (\<forall>v \<in> set (dict_values pc). 0 \<le> v)
                   \<and> (\<forall>k \<in> set (dict_keys pc). state_ranks k \<noteq> 0))"

subsection \<open>Configurations\<close>

text \<open>The configurations that the specification calls valid: a recognized
  specialization and risk level, and positive \<open>iterations\<close>, \<open>max_years\<close> and
  \<open>ci_iterations\<close> (an absent key stands for its default).\<close>

definition valid_config :: "config \<Rightarrow> bool" where
  "valid_config cfg =
     (config_get (cfg_specialization cfg) ''none'' \<in> {''early'', ''none''}
      \<and> config_get (cfg_risk_level cfg) ''medium'' \<in> {''low'', ''medium'', ''high''}
      \<and> 0 < config_get (cfg_iterations cfg) 2500
      \<and> 0 < config_get (cfg_max_years cfg) 45
      \<and> 0 < config_get (cfg_ci_iterations cfg) 30)"

text \<open>Three careers of one year each: \<open>{"iterations": 3, "max_years": 1}\<close>, with draws
  that fail each retirement trial and choose Entry Level, Junior and Mid-Level.\<close>

definition three_careers :: config where
  "three_careers =
     \<lparr> cfg_specialization = None, cfg_risk_level = None, cfg_iterations = Some 3,
       cfg_max_years = Some 1, cfg_starting_age = None, cfg_compute_ci = None,
       cfg_ci_iterations = None \<rparr>"

definition three_peaks_draws :: rng where
  "three_peaks_draws = 0 ## (1/10) ## 0 ## (1/2) ## 0 ## (78/100) ## sconst 0"

text \<open>A configuration outside the valid ones in four settings,
  \<open>{"specialization": "sideways", "risk_level": "extreme", "iterations": 1,
  "max_years": 0, "ci_iterations": 0}\<close>, and the configuration \<open>{"iterations": 0}\<close>.\<close>

definition unchecked_config :: config where
  "unchecked_config =
     \<lparr> cfg_specialization = Some ''sideways'', cfg_risk_level = Some ''extreme'',
       cfg_iterations = Some 1, cfg_max_years = Some 0, cfg_starting_age = None,
       cfg_compute_ci = None, cfg_ci_iterations = Some 0 \<rparr>"

definition zero_iterations :: config where
  "zero_iterations =
     \<lparr> cfg_specialization = None, cfg_risk_level = None, cfg_iterations = Some 0,
       cfg_max_years = None, cfg_starting_age = None, cfg_compute_ci = None,
       cfg_ci_iterations = None \<rparr>"

text \<open>One career and a bootstrap of no batch:
  \<open>{"iterations": 1, "max_years": 0, "compute_ci": True, "ci_iterations": 0}\<close>.\<close>

definition empty_bootstrap :: config where
  "empty_bootstrap =
     \<lparr> cfg_specialization = None, cfg_risk_level = None, cfg_iterations = Some 1,
       cfg_max_years = Some 0, cfg_starting_age = None, cfg_compute_ci = Some True,
       cfg_ci_iterations = Some 0 \<rparr>"

text \<open>The draws of \<open>early_exit_draws\<close> three times over, for the three runs of the
  comparative analysis with one career each.\<close>

definition comparative_draws :: rng where
  "comparative_draws =
     0 ## (9/10) ## 0 ## (99/100) ## 0 ## (9/10) ## 0 ## (99/100) ## 0 ## (9/10) ## 0 ## (99/100)
       ## sconst 0"

section \<open>Properties\<close>

subsection \<open>Decision profile scores\<close>

lemma update_burnout_scores:
  "burnout_score (update_burnout p s y) \<ge> 0"
  "momentum_score (update_burnout p s y) = momentum_score p"
  by (simp_all add: update_burnout_def Let_def)

lemma update_momentum_scores:
  "momentum_score (update_momentum p old new) \<ge> 0"
  "burnout_score (update_momentum p old new) = burnout_score p"
  by (simp_all add: update_momentum_def Let_def)

lemma apply_update_nonneg: "scores_nonneg p \<Longrightarrow> scores_nonneg (apply_update p u)"
  by (cases u) (simp_all add: scores_nonneg_def update_burnout_scores update_momentum_scores)

text \<open>
  Claim C9. Whatever sequence of \<open>update_burnout\<close> and \<open>update_momentum\<close> calls is
  applied to a profile whose two scores are not negative, the scores are not negative
  afterwards. The sequence is arbitrary, so the same holds after each of its prefixes.
\<close>

theorem scores_never_negative:
  "scores_nonneg p \<Longrightarrow> scores_nonneg (apply_updates p us)"
  unfolding apply_updates_def
  by (induction us arbitrary: p) (simp_all add: apply_update_nonneg)

theorem scores_never_negative_witness:
  "scores_nonneg (CareerProfile False ''high'')
   \<and> scores_nonneg (apply_updates (CareerProfile False ''high'')
        [Burnout Unemployed 0, Momentum Junior EntryLevel, Burnout CSuite 1, Momentum EntryLevel Unemployed])
   \<and> momentum_score (apply_updates (CareerProfile False ''high'')
        [Momentum EntryLevel Junior, Momentum Junior EntryLevel]) = 0"
proof -
  have h: "scores_nonneg (CareerProfile False ''high'')"
    by (simp add: scores_nonneg_def CareerProfile_def)
  show ?thesis
    using h scores_never_negative [OF h,
      of "[Burnout Unemployed 0, Momentum Junior EntryLevel, Burnout CSuite 1, Momentum EntryLevel Unemployed]"]
    by (simp add: apply_updates_def update_momentum_def CareerProfile_def Let_def)
qed

subsection \<open>Retirement policy\<close>

lemma retirement_probability_clamped:
  assumes "s \<noteq> Retired" and "\<not> a < 55"
  shows "\<exists>x. get_retirement_probability p s y a = max 0 (min 1 x)"
  using assms
  by (simp only: get_retirement_probability_def Let_def if_False) (rule exI, rule refl)

lemma retirement_probability_Retired: "get_retirement_probability p Retired y a = 1"
  by (simp add: get_retirement_probability_def)

lemma retirement_probability_young:
  "s \<noteq> Retired \<Longrightarrow> a < 55 \<Longrightarrow> get_retirement_probability p s y a = 0"
  by (simp add: get_retirement_probability_def)

text \<open>
  Claim C8. The retirement probability lies in the unit interval for every profile, state
  and age; it is exactly 1 in state Retired, and exactly 0 in any other state below age 55.
\<close>

theorem retirement_probability_range:
  "0 \<le> get_retirement_probability p s y a
   \<and> get_retirement_probability p s y a \<le> 1
   \<and> get_retirement_probability p Retired y a = 1
   \<and> (s \<noteq> Retired \<and> a < 55 \<longrightarrow> get_retirement_probability p s y a = 0)"
proof -
  have bounds: "0 \<le> get_retirement_probability p s y a \<and> get_retirement_probability p s y a \<le> 1"
  proof (cases "s = Retired")
    case True
    then show ?thesis by (simp add: retirement_probability_Retired)
  next
    case notret: False
    show ?thesis
    proof (cases "a < 55")
      case True
      with notret show ?thesis by (simp add: retirement_probability_young)
    next
      case False
      with notret obtain x where "get_retirement_probability p s y a = max 0 (min 1 x)"
        using retirement_probability_clamped by blast
      then show ?thesis by simp
    qed
  qed
  then show ?thesis
    by (simp add: retirement_probability_Retired retirement_probability_young)
qed

theorem retirement_probability_range_witness:
  "Unemployed \<noteq> Retired \<and> (54::int) < 55
   \<and> get_retirement_probability (CareerProfile False ''low''\<lparr>burnout_score := 200\<rparr>) Unemployed 31 54 = 0
   \<and> get_retirement_probability (CareerProfile False ''low''\<lparr>burnout_score := 200\<rparr>) Retired 31 54 = 1"
  using retirement_probability_range
          [of "CareerProfile False ''low''\<lparr>burnout_score := 200\<rparr>" Unemployed 31 54]
  by simp

subsection \<open>Peak position\<close>

lemma peak_loop_not_rank0:
  "state_ranks (snd acc) \<noteq> 0 \<Longrightarrow> 0 \<le> fst acc \<Longrightarrow> state_ranks (snd (peak_loop career acc)) \<noteq> 0"
proof (induction career arbitrary: acc)
  case Nil
  then show ?case by simp
next
  case (Cons s career)
  obtain m pk where acc: "acc = (m, pk)" by (cases acc)
  show ?case
  proof (cases "state_ranks s > m")
    case True
    with Cons.prems acc have "state_ranks (snd (state_ranks s, s)) \<noteq> 0" "0 \<le> fst (state_ranks s, s)"
      by auto
    from Cons.IH [OF this] True acc show ?thesis by simp
  next
    case False
    with Cons.IH [OF Cons.prems] acc show ?thesis by simp
  qed
qed

lemma peak_loop_no_positive:
  "\<forall>s \<in> set career. state_ranks s \<le> fst acc \<Longrightarrow> peak_loop career acc = acc"
  by (induction career arbitrary: acc) (auto simp: Let_def)

lemma get_peak_position_rank: "state_ranks (get_peak_position career) \<noteq> 0"
  unfolding get_peak_position_def by (rule peak_loop_not_rank0) simp_all

lemma get_peak_position_default:
  "\<forall>s \<in> set career. state_ranks s \<le> 0 \<Longrightarrow> get_peak_position career = EntryLevel"
  unfolding get_peak_position_def by (simp add: peak_loop_no_positive)

subsection \<open>Transition modifier\<close>

lemmas modifier_defs =
  modified_row_def specialization_effect_def risk_effect_def scale_entry_def
  dict_in_def dict_keys_def dict_values_def TRANSITIONS_def

lemma modified_row_base_total:
  "0 < sum_list (dict_values (modified_row p (TRANSITIONS s) s))"
  by (cases s; cases "early_specialization p"; cases "risk_tolerance p = ''high''";
      cases "risk_tolerance p = ''low''"; simp add: modifier_defs)

lemma modified_row_base_nonneg:
  "v \<in> set (dict_values (modified_row p (TRANSITIONS s) s)) \<Longrightarrow> 0 \<le> v"
  by (cases s; cases "early_specialization p"; cases "risk_tolerance p = ''high''";
      cases "risk_tolerance p = ''low''"; auto simp add: modifier_defs)

lemma normalized_values:
  "dict_values (map (\<lambda>(k, v). (k, v / c)) m) = map (\<lambda>v. v / c) (dict_values m)"
  by (induction m) (auto simp: dict_values_def)

lemma sum_list_divide: "sum_list (map (\<lambda>v. v / c) vs) = sum_list vs / (c::real)"
  by (induction vs) (simp_all add: add_divide_distrib)

lemma normalized_total:
  assumes "0 < sum_list (dict_values (modified_row p t s))"
  shows "sum_list (dict_values (apply_decision_modifiers p t s y)) = 1"
  using assms
  by (simp add: apply_decision_modifiers_def Let_def normalized_values sum_list_divide)

lemma normalized_nonneg:
  assumes "\<And>v. v \<in> set (dict_values (modified_row p t s)) \<Longrightarrow> 0 \<le> v"
    and "v \<in> set (dict_values (apply_decision_modifiers p t s y))"
  shows "0 \<le> v"
proof (cases "0 < sum_list (dict_values (modified_row p t s))")
  case True
  with assms(2) obtain w where "w \<in> set (dict_values (modified_row p t s))"
      and "v = w / sum_list (dict_values (modified_row p t s))"
    by (auto simp: apply_decision_modifiers_def Let_def normalized_values)
  with True assms(1) show ?thesis by simp
next
  case False
  with assms show ?thesis by (simp add: apply_decision_modifiers_def Let_def)
qed

lemma base_row_total: "sum_list (dict_values (apply_decision_modifiers p (TRANSITIONS s) s y)) = 1"
  by (rule normalized_total) (rule modified_row_base_total)

lemma base_row_nonneg:
  "v \<in> set (dict_values (apply_decision_modifiers p (TRANSITIONS s) s y)) \<Longrightarrow> 0 \<le> v"
  by (rule normalized_nonneg [where p = p and t = "TRANSITIONS s" and s = s and y = y])
     (simp_all add: modified_row_base_nonneg)

text \<open>
  Claim C6. For every profile and every state, the row that \<open>apply_decision_modifiers\<close>
  returns for the state's row of the base table sums to 1 (so within \<open>1e-9\<close> of 1) and
  has no negative entry.
\<close>

theorem modifier_row_normalized:
  "\<bar>sum_list (dict_values (apply_decision_modifiers p (TRANSITIONS s) s y)) - 1\<bar> \<le> 1 / 10 ^ 9
   \<and> (\<forall>v \<in> set (dict_values (apply_decision_modifiers p (TRANSITIONS s) s y)). 0 \<le> v)"
  by (simp add: base_row_total base_row_nonneg)

theorem modifier_row_normalized_witness:
  "dict_values (apply_decision_modifiers (CareerProfile True ''high'') (TRANSITIONS Senior) Senior 3)
     = [264 / 479, 81 / 479, 54 / 479, 40 / 479, 40 / 479]
   \<and> \<bar>sum_list [264 / 479, 81 / 479, 54 / 479, 40 / 479, 40 / 479 :: real] - 1\<bar> \<le> 1 / 10 ^ 9
   \<and> (0::real) \<le> 264 / 479 \<and> (0::real) \<le> 81 / 479 \<and> (0::real) \<le> 54 / 479
   \<and> (0::real) \<le> 40 / 479"
proof -
  have row: "dict_values (apply_decision_modifiers (CareerProfile True ''high'') (TRANSITIONS Senior) Senior 3)
     = [264 / 479, 81 / 479, 54 / 479, 40 / 479, 40 / 479]"
    by (simp add: apply_decision_modifiers_def modifier_defs CareerProfile_def)
  show ?thesis
    using modifier_row_normalized [of "CareerProfile True ''high''" Senior 3]
    unfolding row by simp
qed

text \<open>
  Claim C3 says that a modified row whose total is not positive makes
  \<open>apply_decision_modifiers\<close> raise. The function has no raise: the guard
  \<open>if total > 0\<close> skips the normalization. On the row \<open>{Entry Level: 0, Unemployed: 0}\<close>
  the modified total is 0 and the row comes back as it is, its total still 0.
\<close>

theorem zero_total_row_counterexample:
  "sum_list (dict_values (modified_row (CareerProfile False ''medium'')
       [(EntryLevel, 0), (Unemployed, 0)] EntryLevel)) \<le> 0
   \<and> apply_decision_modifiers (CareerProfile False ''medium'')
       [(EntryLevel, 0), (Unemployed, 0)] EntryLevel 0 = [(EntryLevel, 0), (Unemployed, 0)]
   \<and> sum_list (dict_values (apply_decision_modifiers (CareerProfile False ''medium'')
       [(EntryLevel, 0), (Unemployed, 0)] EntryLevel 0)) \<noteq> 1"
  by (simp add: apply_decision_modifiers_def modifier_defs CareerProfile_def)

text \<open>
  Claim C3, amended. When the total of the modified row is not positive,
  \<open>apply_decision_modifiers\<close> returns the modified row itself, not normalized: the total
  of the returned row is the same non-positive total.
\<close>

theorem zero_total_row_returned:
  "sum_list (dict_values (modified_row p t s)) \<le> 0 \<Longrightarrow>
   apply_decision_modifiers p t s y = modified_row p t s
   \<and> sum_list (dict_values (apply_decision_modifiers p t s y)) \<le> 0"
  by (simp add: apply_decision_modifiers_def Let_def)

theorem zero_total_row_returned_witness:
  "sum_list (dict_values (modified_row (CareerProfile True ''low'')
       [(Junior, 1 / 2), (Unemployed, - (13 / 20))] EntryLevel)) \<le> 0
   \<and> apply_decision_modifiers (CareerProfile True ''low'')
       [(Junior, 1 / 2), (Unemployed, - (13 / 20))] EntryLevel 0 = [(Junior, 13 / 20), (Unemployed, - (13 / 20))]"
proof -
  have h: "sum_list (dict_values (modified_row (CareerProfile True ''low'')
       [(Junior, 1 / 2), (Unemployed, - (13 / 20))] EntryLevel)) \<le> 0"
    by (simp add: modifier_defs CareerProfile_def)
  have m: "modified_row (CareerProfile True ''low'')
       [(Junior, 1 / 2), (Unemployed, - (13 / 20))] EntryLevel = [(Junior, 13 / 20), (Unemployed, - (13 / 20))]"
    by (simp add: modifier_defs CareerProfile_def)
  show ?thesis
    using h zero_total_row_returned [OF h, of 0] by (simp add: m)
qed

subsection \<open>Weighted choice\<close>

lemma accumulate_from_length: "length (accumulate_from a ws) = length ws"
  by (induction ws arbitrary: a) simp_all

lemma accumulate_from_Nil: "accumulate_from a ws = [] \<longleftrightarrow> ws = []"
  by (cases ws) simp_all

lemma accumulate_from_last:
  "ws \<noteq> [] \<Longrightarrow> last (accumulate_from a ws) = a + sum_list ws"
proof (induction ws arbitrary: a)
  case Nil
  then show ?case by simp
next
  case (Cons w ws)
  show ?case
  proof (cases "ws = []")
    case True
    then show ?thesis by simp
  next
    case False
    with Cons.IH [of "a + w"] show ?thesis
      by (simp add: accumulate_from_Nil add.assoc)
  qed
qed

lemma choices_returns:
  assumes "length population = length weights" and "0 < sum_list weights"
  shows "\<exists>x g'. choices population weights g = Inr (x, g')"
proof -
  from assms(2) have ne: "weights \<noteq> []" by auto
  then have "accumulate_from 0 weights \<noteq> []" by (cases weights) simp_all
  moreover have "last (accumulate_from 0 weights) = sum_list weights"
    using ne by (simp add: accumulate_from_last)
  ultimately show ?thesis
    using assms by (simp add: choices_def accumulate_def accumulate_from_length Let_def
        random_random_def)
qed

subsection \<open>Trajectory simulator\<close>

lemma simulate_year_Retired:
  "s_current_state st = Retired \<Longrightarrow>
   simulate_year year st =
     Inr (st\<lparr>s_current_age := s_current_age st + 1,
             s_career_path := s_career_path st @ [Retired]\<rparr>)"
  by (simp add: simulate_year_def Let_def)

lemma base_row_choices:
  "\<exists>x g'. choices (dict_keys (apply_decision_modifiers p (TRANSITIONS s) s y))
             (dict_values (apply_decision_modifiers p (TRANSITIONS s) s y)) g = Inr (x, g')"
  by (rule choices_returns) (simp_all add: dict_keys_def dict_values_def base_row_total [unfolded dict_values_def])

lemma simulate_year_returns: "\<exists>st'. simulate_year year st = Inr st'"
proof (cases "s_current_state st = Retired")
  case True
  then show ?thesis by (simp add: simulate_year_Retired)
next
  case False
  define p where "p = update_burnout (s_profile st) (s_current_state st) year"
  obtain x g' where
    "choices (dict_keys (apply_decision_modifiers p (TRANSITIONS (s_current_state st)) (s_current_state st) year))
             (dict_values (apply_decision_modifiers p (TRANSITIONS (s_current_state st)) (s_current_state st) year))
             (stl (s_rng st)) = Inr (x, g')"
    using base_row_choices by blast
  with False show ?thesis
    by (simp add: simulate_year_def Let_def random_random_def p_def)
qed

lemma simulate_year_step:
  assumes "simulate_year year st = Inr st'"
  shows "s_career_path st' = s_career_path st @ [s_current_state st']"
    and "s_current_state st = Retired \<Longrightarrow> s_current_state st' = Retired"
    and "s_current_age st' = s_current_age st + 1"
  using assms
  by (auto simp: simulate_year_def Let_def random_random_def split: if_splits sum.splits prod.splits)


lemma absorbing_snoc:
  "absorbing (path @ [s]) = (absorbing path \<and> (Retired \<in> set path \<longrightarrow> s = Retired))"
  by (induction path) auto

lemma absorbing_last: "absorbing path \<Longrightarrow> Retired \<in> set path \<Longrightarrow> last path = Retired"
  by (induction path) auto

lemma absorbing_nth:
  "absorbing path \<Longrightarrow> i < j \<Longrightarrow> j < length path \<Longrightarrow> path ! i = Retired \<Longrightarrow> path ! j = Retired"
proof (induction path arbitrary: i j)
  case Nil
  then show ?case by simp
next
  case (Cons s path)
  obtain j' where j: "j = Suc j'" using Cons.prems(2) by (cases j) auto
  show ?case
  proof (cases i)
    case 0
    with Cons.prems j show ?thesis by simp
  next
    case (Suc i')
    with Cons.prems j Cons.IH [of i' j'] show ?thesis by simp
  qed
qed

lemma simulate_year_inv:
  assumes "simulate_year year st = Inr st'" and "sim_inv st"
  shows "sim_inv st'"
proof -
  note step = simulate_year_step [OF assms(1)]
  have "Retired \<in> set (s_career_path st) \<Longrightarrow> s_current_state st' = Retired"
    using assms(2) absorbing_last [of "s_career_path st"] step(2) by (simp add: sim_inv_def)
  with assms(2) show ?thesis
    by (simp add: sim_inv_def step(1) absorbing_snoc)
qed

lemma simulate_years_inv:
  "simulate_years years st = Inr st' \<Longrightarrow> sim_inv st \<Longrightarrow> sim_inv st'"
proof (induction years arbitrary: st)
  case Nil
  then show ?case by simp
next
  case (Cons year years)
  from Cons.prems(1) obtain st1 where s1: "simulate_year year st = Inr st1"
      and rest: "simulate_years years st1 = Inr st'"
    by (auto split: sum.splits)
  from simulate_year_inv [OF s1 Cons.prems(2)] Cons.IH [OF rest] show ?case by simp
qed

lemma simulate_years_returns: "\<exists>st'. simulate_years years st = Inr st'"
proof (induction years arbitrary: st)
  case Nil
  then show ?case by simp
next
  case (Cons year years)
  obtain st1 where "simulate_year year st = Inr st1"
    using simulate_year_returns by blast
  with Cons.IH [of st1] show ?case by simp
qed

lemma simulate_years_length:
  "simulate_years years st = Inr st' \<Longrightarrow>
   length (s_career_path st') = length (s_career_path st) + length years"
proof (induction years arbitrary: st)
  case Nil
  then show ?case by simp
next
  case (Cons year years)
  from Cons.prems obtain st1 where s1: "simulate_year year st = Inr st1"
      and rest: "simulate_years years st1 = Inr st'"
    by (auto split: sum.splits)
  from Cons.IH [OF rest] simulate_year_step(1) [OF s1] show ?case by simp
qed

lemma simulate_years_Retired:
  "s_current_state st = Retired \<Longrightarrow>
   simulate_years years st =
     Inr (st\<lparr>s_current_age := s_current_age st + int (length years),
             s_career_path := s_career_path st @ replicate (length years) Retired\<rparr>)"
proof (induction years arbitrary: st)
  case Nil
  then show ?case by simp
next
  case (Cons year years)
  let ?st1 = "st\<lparr>s_current_age := s_current_age st + 1,
                   s_career_path := s_career_path st @ [Retired]\<rparr>"
  have "s_current_state ?st1 = Retired" using Cons.prems by simp
  from Cons.IH [OF this] Cons.prems show ?case
    by (simp add: simulate_year_Retired replicate_append_same)
qed

lemma simulate_career_returns:
  "\<exists>path p' g'. simulate_career max_years starting_age profile g = Inr (path, p', g')"
proof -
  let ?st = "\<lparr> s_current_state = EntryLevel, s_career_path = [EntryLevel],
               s_current_age = starting_age,
               s_profile = (case profile of None \<Rightarrow> CareerProfile False ''medium'' | Some p \<Rightarrow> p),
               s_rng = g \<rparr>"
  obtain st' where "simulate_years (py_range max_years) ?st = Inr st'"
    using simulate_years_returns by blast
  then show ?thesis by (simp add: simulate_career_def)
qed

lemma simulate_career_absorbing:
  assumes "simulate_career max_years starting_age profile g = Inr (path, p', g')"
  shows "absorbing path" and "length path = nat max_years + 1" and "path \<noteq> []"
proof -
  let ?st = "\<lparr> s_current_state = EntryLevel, s_career_path = [EntryLevel],
               s_current_age = starting_age,
               s_profile = (case profile of None \<Rightarrow> CareerProfile False ''medium'' | Some p \<Rightarrow> p),
               s_rng = g \<rparr>"
  from assms obtain st' where run: "simulate_years (py_range max_years) ?st = Inr st'"
      and path: "path = s_career_path st'"
    by (auto simp: simulate_career_def split: sum.splits)
  have "sim_inv ?st" by (simp add: sim_inv_def)
  from simulate_years_inv [OF run this] path show "absorbing path" "path \<noteq> []"
    by (simp_all add: sim_inv_def)
  from simulate_years_length [OF run] path show "length path = nat max_years + 1"
    by (simp add: py_range_def)
qed

text \<open>
  Claim C7. In every trajectory that \<open>simulate_career\<close> returns, for any horizon,
  starting age, profile and random draws, each entry after a Retired entry is Retired.
  (By \<open>simulate_career_returns\<close> the simulator returns a trajectory for every input.)
\<close>

theorem retired_is_absorbing:
  "simulate_career max_years starting_age profile g = Inr (path, p', g') \<Longrightarrow>
   i < j \<Longrightarrow> j < length path \<Longrightarrow> path ! i = Retired \<Longrightarrow> path ! j = Retired"
  using simulate_career_absorbing(1) absorbing_nth by blast

lemmas sim_defs =
  simulate_career_def py_range_def simulate_year_def CareerProfile_def update_burnout_def
  update_momentum_def get_retirement_probability_def random_random_def
  apply_decision_modifiers_def modifier_defs choices_def accumulate_def bisect_right.simps

lemma early_exit_career:
  "simulate_career 45 22 (Some (CareerProfile False ''medium'')) early_exit_draws =
     Inr ([EntryLevel, Unemployed] @ replicate 44 Retired,
          \<lparr> early_specialization = False, risk_tolerance = ''medium'',
            unemployment_history = [0], burnout_score = 0, momentum_score = 0,
            total_demotions = 1, total_promotions = 0 \<rparr>, sconst 0)"
proof -
  have r: "[0..<45] = 0 # 1 # [2..<45]" by (simp add: upt_conv_Cons)
  show ?thesis
    unfolding simulate_career_def py_range_def early_exit_draws_def
    apply (simp add: r)
    apply (simp add: simulate_year_def Let_def CareerProfile_def update_burnout_def
      update_momentum_def get_retirement_probability_def random_random_def
      apply_decision_modifiers_def modifier_defs choices_def accumulate_def bisect_right.simps
      simulate_years_Retired)
    apply (simp add: numeral_eq_Suc)
    done
qed


theorem retired_is_absorbing_witness:
  "simulate_career 45 22 (Some (CareerProfile False ''medium'')) early_exit_draws =
     Inr ([EntryLevel, Unemployed] @ replicate 44 Retired,
          \<lparr> early_specialization = False, risk_tolerance = ''medium'',
            unemployment_history = [0], burnout_score = 0, momentum_score = 0,
            total_demotions = 1, total_promotions = 0 \<rparr>, sconst 0)
   \<and> (2::nat) < 45 \<and> 45 < length ([EntryLevel, Unemployed] @ replicate 44 Retired)
   \<and> ([EntryLevel, Unemployed] @ replicate 44 Retired) ! 2 = Retired
   \<and> ([EntryLevel, Unemployed] @ replicate 44 Retired) ! 45 = Retired"
proof -
  have a: "(2::nat) < 45" by simp
  have b: "45 < length ([EntryLevel, Unemployed] @ replicate 44 Retired)" by simp
  have c: "([EntryLevel, Unemployed] @ replicate 44 Retired) ! 2 = Retired"
    by (simp add: nth_append)
  from retired_is_absorbing [OF early_exit_career a b c] early_exit_career a b c
  show ?thesis by simp
qed

lemma list_index_append:
  "x \<notin> set xs \<Longrightarrow> list_index (xs @ x # ys) x = Some (length xs)"
  by (induction xs) auto

text \<open>
  Claim C2 bounds every reported retirement age by 55 from below. The base table lets
  Unemployed (and C-Suite) move to Retired through the weighted choice at any age, past
  the age floor of \<open>get_retirement_probability\<close>: with starting age 22 and horizon 45,
  the batch of one career under \<open>early_exit_draws\<close> reports the retirement age 24.
\<close>

theorem retirement_age_below_floor:
  "\<not> isl (run_batch False ''medium'' 45 22 1 early_exit_draws)
   \<and> retire_ages (fst (projr (run_batch False ''medium'' 45 22 1 early_exit_draws))) = [24]"
proof -
  have r: "[EntryLevel, Unemployed] @ replicate 44 Retired
             = [EntryLevel, Unemployed] @ Retired # replicate 43 Retired"
    by (simp add: numeral_eq_Suc)
  have "list_index ([EntryLevel, Unemployed] @ replicate 44 Retired) Retired = Some 2"
    unfolding r by (subst list_index_append) simp_all
  then show ?thesis
    by (simp add: run_batch_def py_range_def early_exit_career List.map_filter_def)
qed

subsection \<open>Doubles\<close>

lemma exp_down_numeral [simp]:
  "exp_down (numeral k) x e = (if pow2 e \<le> x then e else exp_down (pred_numeral k) x (e - 1))"
  by (simp add: numeral_eq_Suc)

lemma exp_up_numeral [simp]:
  "exp_up (numeral k) x e = (if x < pow2 (e + 1) then e else exp_up (pred_numeral k) x (e + 1))"
  by (simp add: numeral_eq_Suc)

lemma pow2_pos: "0 < pow2 e"
  by (simp add: pow2_def)

lemma exp_down_le: "exp_down n x e \<le> e"
proof (induction n arbitrary: e)
  case 0
  then show ?case by simp
next
  case (Suc n)
  from Suc [of "e - 1"] show ?case by simp
qed

lemma float_exponent_unit: "\<bar>x\<bar> \<le> 1 \<Longrightarrow> float_exponent x \<le> 0"
proof (cases "\<bar>x\<bar> < 1")
  case True
  with exp_down_le [of 1021 "\<bar>x\<bar>" "- 1"] show ?thesis by (simp add: float_exponent_def)
next
  case False
  assume "\<bar>x\<bar> \<le> 1"
  with False have "\<bar>x\<bar> = 1" by simp
  then show ?thesis by (simp add: float_exponent_def pow2_def)
qed

lemma round_half_even_err: "\<bar>of_int (round_half_even x) - x\<bar> \<le> 1 / 2"
proof -
  have "of_int \<lfloor>x\<rfloor> \<le> x" and "x < of_int \<lfloor>x\<rfloor> + 1" by linarith+
  then show ?thesis
    by (simp add: round_half_even_def Let_def abs_le_iff)
qed

lemma round_half_even_lower: "0 \<le> x \<Longrightarrow> 0 \<le> round_half_even x"
proof -
  assume "0 \<le> x"
  then have "0 \<le> \<lfloor>x\<rfloor>" by simp
  then show ?thesis by (simp add: round_half_even_def Let_def)
qed

lemma round_half_even_upper:
  assumes "x \<le> of_int n"
  shows "round_half_even x \<le> n"
proof -
  have f: "\<lfloor>x\<rfloor> \<le> n" using assms by (simp add: floor_le_iff)
  have "1 / 2 \<le> x - of_int \<lfloor>x\<rfloor> \<Longrightarrow> \<lfloor>x\<rfloor> + 1 \<le> n"
  proof -
    assume "1 / 2 \<le> x - of_int \<lfloor>x\<rfloor>"
    with assms have "(of_int \<lfloor>x\<rfloor> :: real) < of_int n" by linarith
    then show ?thesis by simp
  qed
  with f show ?thesis
    by (simp add: round_half_even_def Let_def not_less)
qed

lemma ulp_unit:
  assumes "\<bar>x\<bar> \<le> 1"
  shows "\<exists>m. pow2 (float_exponent x - 52) = 1 / 2 ^ m \<and> 52 \<le> m"
proof -
  from float_exponent_unit [OF assms] have "float_exponent x - 52 < 0" by simp
  then have "pow2 (float_exponent x - 52) = 1 / 2 ^ nat (52 - float_exponent x)"
    by (simp add: pow2_def)
  moreover have "52 \<le> nat (52 - float_exponent x)"
    using float_exponent_unit [OF assms] by simp
  ultimately show ?thesis by blast
qed

lemma py_float_err:
  assumes "\<bar>x\<bar> \<le> 1"
  shows "\<bar>py_float x - x\<bar> \<le> 1 / 2 ^ 53"
proof -
  from ulp_unit [OF assms] obtain m where u: "pow2 (float_exponent x - 52) = 1 / 2 ^ m"
      and m: "52 \<le> m"
    by blast
  let ?u = "1 / 2 ^ m :: real"
  have upos: "0 < ?u" by simp
  have "(2::real) ^ 52 \<le> 2 ^ m" using m by (intro power_increasing) simp_all
  then have ule: "?u \<le> 1 / 2 ^ 52" by (simp add: field_simps)
  have "\<bar>of_int (round_half_even (x / ?u)) - x / ?u\<bar> \<le> 1 / 2" by (rule round_half_even_err)
  then have "\<bar>of_int (round_half_even (x / ?u)) - x / ?u\<bar> * ?u \<le> (1 / 2) * ?u"
    using upos by (intro mult_right_mono) simp_all
  moreover have "\<bar>of_int (round_half_even (x / ?u)) - x / ?u\<bar> * ?u
                  = \<bar>of_int (round_half_even (x / ?u)) * ?u - x\<bar>"
  proof -
    have "\<bar>of_int (round_half_even (x / ?u)) - x / ?u\<bar> * ?u
            = \<bar>(of_int (round_half_even (x / ?u)) - x / ?u) * ?u\<bar>"
      using upos by (simp add: abs_mult)
    also have "(of_int (round_half_even (x / ?u)) - x / ?u) * ?u
                 = of_int (round_half_even (x / ?u)) * ?u - x"
      by (simp add: algebra_simps)
    finally show ?thesis .
  qed
  ultimately have "\<bar>of_int (round_half_even (x / ?u)) * ?u - x\<bar> \<le> (1 / 2) * ?u" by simp
  also have "(1 / 2) * ?u \<le> (1 / 2) * (1 / 2 ^ 52)" using ule by simp
  also have "\<dots> = 1 / 2 ^ 53" by simp
  finally show ?thesis by (simp add: py_float_def Let_def u)
qed

lemma py_float_nonneg: "0 \<le> x \<Longrightarrow> 0 \<le> py_float x"
proof -
  assume "0 \<le> x"
  then have "0 \<le> x / pow2 (float_exponent x - 52)"
    by (intro divide_nonneg_pos pow2_pos)
  then have "0 \<le> round_half_even (x / pow2 (float_exponent x - 52))"
    by (rule round_half_even_lower)
  then show ?thesis using pow2_pos [of "float_exponent x - 52"]
    by (simp add: py_float_def Let_def)
qed

lemma py_float_le_one:
  assumes "0 \<le> x" and "x \<le> 1"
  shows "py_float x \<le> 1"
proof -
  from assms have "\<bar>x\<bar> \<le> 1" by simp
  from ulp_unit [OF this] obtain m where u: "pow2 (float_exponent x - 52) = 1 / 2 ^ m"
    by blast
  have "x / (1 / 2 ^ m) \<le> of_int (2 ^ m)" using assms by simp
  then have "round_half_even (x / (1 / 2 ^ m)) \<le> 2 ^ m" by (rule round_half_even_upper)
  then have "(of_int (round_half_even (x / (1 / 2 ^ m))) :: real) \<le> of_int (2 ^ m)"
    by (simp only: of_int_le_iff)
  then have "of_int (round_half_even (x / (1 / 2 ^ m))) * (1 / 2 ^ m) \<le> (1::real)"
    by (simp add: field_simps)
  then show ?thesis by (simp add: py_float_def Let_def u)
qed

lemma py_float_0: "py_float 0 = 0"
  by (simp add: py_float_def round_half_even_def)

lemma py_float_1: "py_float 1 = 1"
  by (simp add: py_float_def float_exponent_def pow2_def round_half_even_def)

lemma py_round_0: "py_round 0 4 = 0"
  by (simp add: py_round_def round_half_even_def py_float_0)

lemma py_round_1: "py_round 1 4 = 1"
  by (simp add: py_round_def round_half_even_def py_float_1)

subsection \<open>Batch runner\<close>

lemma dict_set_keys: "set (dict_keys (dict_set m k v)) = insert k (set (dict_keys m))"
  by (induction m k v rule: dict_set.induct) (auto simp: dict_keys_def)

lemma dict_set_distinct: "distinct (dict_keys m) \<Longrightarrow> distinct (dict_keys (dict_set m k v))"
proof (induction m)
  case Nil
  then show ?case by (simp add: dict_keys_def)
next
  case (Cons kv m)
  obtain k' v' where kv: "kv = (k', v')" by (cases kv)
  from Cons.prems have d: "distinct (dict_keys m)" and n: "k' \<notin> set (dict_keys m)"
    by (simp_all add: kv dict_keys_def)
  show ?case
  proof (cases "k' = k")
    case True
    with Cons.prems show ?thesis by (simp add: kv dict_keys_def)
  next
    case False
    have "k' \<notin> set (dict_keys (dict_set m k v))"
      using n False by (simp add: dict_set_keys)
    with Cons.IH [OF d] False show ?thesis
      by (simp add: kv dict_keys_def)
  qed
qed

lemma dict_bump_sum:
  "sum_list (dict_values (dict_set m k (dict_get m k 0 + 1))) = sum_list (dict_values m) + (1::int)"
  by (induction m k "0::int" rule: dict_get.induct) (simp_all add: dict_values_def)

lemma dict_get_nonneg:
  "\<forall>v \<in> set (dict_values m). (0::int) \<le> v \<Longrightarrow> 0 \<le> dict_get m k 0"
  by (induction m k "0::int" rule: dict_get.induct) (simp_all add: dict_values_def)

lemma dict_set_nonneg:
  "\<forall>v \<in> set (dict_values m). (0::int) \<le> v \<Longrightarrow> 0 \<le> w \<Longrightarrow>
   \<forall>v \<in> set (dict_values (dict_set m k w)). 0 \<le> v"
  by (induction m k w rule: dict_set.induct) (simp_all add: dict_values_def)

lemma counts_ok_bump:
  assumes "counts_ok pc" and "state_ranks k \<noteq> 0"
  shows "counts_ok (dict_set pc k (dict_get pc k 0 + 1))"
proof -
  from assms(1) have d: "distinct (dict_keys pc)"
      and n: "\<forall>v \<in> set (dict_values pc). 0 \<le> v"
      and r: "\<forall>k \<in> set (dict_keys pc). state_ranks k \<noteq> 0"
    by (simp_all add: counts_ok_def)
  have "0 \<le> dict_get pc k 0 + 1" using dict_get_nonneg [OF n, of k] by simp
  from dict_set_nonneg [OF n this] dict_set_distinct [OF d] r assms(2)
  show ?thesis by (simp add: counts_ok_def dict_set_keys)
qed

lemma count_fold_ok:
  "counts_ok pc \<Longrightarrow> \<forall>r \<in> set cs. state_ranks (cd_peak r) \<noteq> 0 \<Longrightarrow>
   counts_ok (foldl (\<lambda>pc r. dict_set pc (cd_peak r) (dict_get pc (cd_peak r) 0 + 1)) pc cs)"
  by (induction cs arbitrary: pc) (simp_all add: counts_ok_bump)

lemma count_fold_sum:
  "sum_list (dict_values (foldl (\<lambda>pc r. dict_set pc (cd_peak r) (dict_get pc (cd_peak r) 0 + 1)) pc cs))
     = sum_list (dict_values pc) + int (length cs)"
  by (induction cs arbitrary: pc) (simp_all add: dict_bump_sum)

lemma count_peaks_ok:
  "\<forall>r \<in> set cs. state_ranks (cd_peak r) \<noteq> 0 \<Longrightarrow> counts_ok (count_peaks cs)"
  unfolding count_peaks_def
  by (rule count_fold_ok) (simp_all add: counts_ok_def dict_keys_def dict_values_def)

lemma count_peaks_sum: "sum_list (dict_values (count_peaks cs)) = int (length cs)"
  unfolding count_peaks_def count_fold_sum by (simp add: dict_values_def)

lemma run_careers_returns:
  "\<exists>cs g'. run_careers es rl my sa idxs acc g = Inr (cs, g')"
proof (induction idxs arbitrary: acc g)
  case Nil
  then show ?case by simp
next
  case (Cons i idxs)
  obtain career prof g1 where "simulate_career my sa (Some (CareerProfile es rl)) g = Inr (career, prof, g1)"
    using simulate_career_returns by blast
  with Cons.IH show ?case by simp
qed

lemma run_careers_props:
  "run_careers es rl my sa idxs acc g = Inr (cs, g') \<Longrightarrow>
   length cs = length acc + length idxs
   \<and> ((\<forall>r \<in> set acc. state_ranks (cd_peak r) \<noteq> 0) \<longrightarrow> (\<forall>r \<in> set cs. state_ranks (cd_peak r) \<noteq> 0))"
proof (induction idxs arbitrary: acc g)
  case Nil
  then show ?case by simp
next
  case (Cons i idxs)
  from Cons.prems obtain career prof g1 where
      "run_careers es rl my sa idxs
         (acc @ [\<lparr> cd_career = career, cd_peak = get_peak_position career,
                    cd_profile = prof, cd_final_state = last career \<rparr>]) g1 = Inr (cs, g')"
    by (auto split: sum.splits)
  from Cons.IH [OF this] show ?case
    by (simp add: get_peak_position_rank)
qed

lemma run_batch_zero: "n \<le> 0 \<Longrightarrow> run_batch es rl my sa n g = Inl ZeroDivisionError"
  by (simp add: run_batch_def py_range_def)

lemma run_batch_pos:
  assumes "0 < n"
  shows "\<exists>b g'. run_batch es rl my sa n g = Inr (b, g')"
proof -
  obtain cs g' where run: "run_careers es rl my sa (py_range n) [] g = Inr (cs, g')"
    using run_careers_returns by blast
  from run_careers_props [OF run] assms have "length cs \<noteq> 0"
    by (simp add: py_range_def)
  with run show ?thesis by (simp add: run_batch_def Let_def)
qed

lemma run_batch_fields:
  assumes "run_batch es rl my sa n g = Inr (b, g')"
  shows "\<exists>cs. run_careers es rl my sa (py_range n) [] g = Inr (cs, g') \<and> length cs \<noteq> 0
          \<and> total b = int (length cs) \<and> peak_counts b = count_peaks cs
          \<and> director_prob b
              = py_float (real_of_int (int (length (filter (\<lambda>r. state_ranks (cd_peak r) \<ge> 7) cs)))
                          / real (length cs))"
proof -
  obtain cs g1 where run: "run_careers es rl my sa (py_range n) [] g = Inr (cs, g1)"
    using run_careers_returns by blast
  show ?thesis
  proof (cases "length cs = 0")
    case True
    with assms run show ?thesis by (simp add: run_batch_def)
  next
    case False
    with assms run show ?thesis by (auto simp: run_batch_def Let_def)
  qed
qed

lemma run_batch_props:
  assumes "run_batch es rl my sa n g = Inr (b, g')"
  shows "0 < total b" and "sum_list (dict_values (peak_counts b)) = total b"
    and "counts_ok (peak_counts b)"
    and "0 \<le> director_prob b" and "director_prob b \<le> 1"
proof -
  from run_batch_fields [OF assms] obtain cs where
      run: "run_careers es rl my sa (py_range n) [] g = Inr (cs, g')"
      and ne: "length cs \<noteq> 0"
      and t: "total b = int (length cs)" and pc: "peak_counts b = count_peaks cs"
      and dp: "director_prob b
              = py_float (real_of_int (int (length (filter (\<lambda>r. state_ranks (cd_peak r) \<ge> 7) cs)))
                          / real (length cs))"
    by blast
  from ne t show "0 < total b" by simp
  from pc t show "sum_list (dict_values (peak_counts b)) = total b" by (simp add: count_peaks_sum)
  from run_careers_props [OF run] have "\<forall>r \<in> set cs. state_ranks (cd_peak r) \<noteq> 0" by simp
  with pc show "counts_ok (peak_counts b)" by (simp add: count_peaks_ok)
  let ?q = "real_of_int (int (length (filter (\<lambda>r. state_ranks (cd_peak r) \<ge> 7) cs)))
              / real (length cs)"
  have q0: "0 \<le> ?q" by simp
  have "length (filter (\<lambda>r. state_ranks (cd_peak r) \<ge> 7) cs) \<le> length cs" by simp
  with ne have q1: "?q \<le> 1" by simp
  from py_float_nonneg [OF q0] dp show "0 \<le> director_prob b" by simp
  from py_float_le_one [OF q0 q1] dp show "director_prob b \<le> 1" by simp
qed

subsection \<open>run\_simulation\<close>

lemma bootstrap_loop_returns:
  assumes "0 < iterations"
  shows "\<exists>ps g'. bootstrap_loop es rl my sa iterations idxs probs g = Inr (ps, g')
                   \<and> length ps = length probs + length idxs"
proof (induction idxs arbitrary: probs g)
  case Nil
  then show ?case by simp
next
  case (Cons i idxs)
  obtain b g1 where b: "run_batch es rl my sa iterations g = Inr (b, g1)"
    using run_batch_pos [OF assms] by blast
  from Cons.IH [of "probs @ [director_prob b]" g1] b show ?case by auto
qed

lemma run_simulation_zero:
  "config_get (cfg_iterations cfg) 2500 \<le> 0 \<Longrightarrow> run_simulation cfg g = Inl ZeroDivisionError"
  by (simp add: run_simulation_def Let_def run_batch_zero)

lemma run_simulation_empty_bootstrap:
  assumes "0 < config_get (cfg_iterations cfg) 2500"
    and "config_get (cfg_compute_ci cfg) False"
    and "config_get (cfg_ci_iterations cfg) 30 \<le> 0"
  shows "run_simulation cfg g = Inl IndexError"
proof -
  obtain b g1 where b: "run_batch (config_get (cfg_specialization cfg) ''none'' = ''early'')
       (config_get (cfg_risk_level cfg) ''medium'') (config_get (cfg_max_years cfg) 45)
       (config_get (cfg_starting_age cfg) 22) (config_get (cfg_iterations cfg) 2500) g
       = Inr (b, g1)"
    using run_batch_pos [OF assms(1)] by blast
  from assms(3) have "py_range (config_get (cfg_ci_iterations cfg) 30) = []"
    by (simp add: py_range_def)
  with b assms(2) show ?thesis
    by (simp add: run_simulation_def Let_def)
qed

lemma run_simulation_pos:
  assumes "0 < config_get (cfg_iterations cfg) 2500"
    and "config_get (cfg_compute_ci cfg) False \<Longrightarrow> 0 < config_get (cfg_ci_iterations cfg) 30"
  shows "\<exists>res g'. run_simulation cfg g = Inr (res, g')"
proof -
  let ?es = "config_get (cfg_specialization cfg) ''none'' = ''early''"
  let ?rl = "config_get (cfg_risk_level cfg) ''medium''"
  let ?it = "config_get (cfg_iterations cfg) 2500"
  let ?my = "config_get (cfg_max_years cfg) 45"
  let ?sa = "config_get (cfg_starting_age cfg) 22"
  obtain b g1 where b: "run_batch ?es ?rl ?my ?sa ?it g = Inr (b, g1)"
    using run_batch_pos [OF assms(1)] by blast
  show ?thesis
  proof (cases "config_get (cfg_compute_ci cfg) False")
    case True
    obtain ps g2 where bl:
      "bootstrap_loop ?es ?rl ?my ?sa ?it (py_range (config_get (cfg_ci_iterations cfg) 30)) [] g1
         = Inr (ps, g2)"
      and len: "length ps = length ([]::real list)
                  + length (py_range (config_get (cfg_ci_iterations cfg) 30))"
      using bootstrap_loop_returns [OF assms(1)] by blast
    from len assms(2) [OF True] have "ps \<noteq> []" by (auto simp: py_range_def)
    with b bl True show ?thesis by (simp add: run_simulation_def Let_def)
  next
    case False
    with b show ?thesis by (simp add: run_simulation_def Let_def)
  qed
qed

lemma run_simulation_result:
  assumes "run_simulation cfg g = Inr (res, g')"
  shows "\<exists>b g1. run_batch (config_get (cfg_specialization cfg) ''none'' = ''early'')
                  (config_get (cfg_risk_level cfg) ''medium'')
                  (config_get (cfg_max_years cfg) 45) (config_get (cfg_starting_age cfg) 22)
                  (config_get (cfg_iterations cfg) 2500) g = Inr (b, g1)
           \<and> peak_role res
               = map (\<lambda>(k, v). (k, py_round (py_float (real_of_int v / real_of_int (total b))) 4))
                     (peak_counts b)
           \<and> director_probability_mean res = py_round (director_prob b) 4
           \<and> retirement_age_sample res = retire_ages b
           \<and> mc_specialization (meta res)
               = (if config_get (cfg_specialization cfg) ''none'' = ''early'' then ''early'' else ''none'')
           \<and> mc_risk_level (meta res) = config_get (cfg_risk_level cfg) ''medium''
           \<and> mc_max_years (meta res) = config_get (cfg_max_years cfg) 45"
proof -
  let ?es = "config_get (cfg_specialization cfg) ''none'' = ''early''"
  let ?rl = "config_get (cfg_risk_level cfg) ''medium''"
  let ?it = "config_get (cfg_iterations cfg) 2500"
  let ?my = "config_get (cfg_max_years cfg) 45"
  let ?sa = "config_get (cfg_starting_age cfg) 22"
  have pos: "0 < ?it"
    using assms run_simulation_zero [of cfg g] by (cases "0 < ?it") simp_all
  obtain b g1 where b: "run_batch ?es ?rl ?my ?sa ?it g = Inr (b, g1)"
    using run_batch_pos [OF pos] by blast
  obtain ps g2 where bl:
    "bootstrap_loop ?es ?rl ?my ?sa ?it (py_range (config_get (cfg_ci_iterations cfg) 30)) [] g1
       = Inr (ps, g2)"
    using bootstrap_loop_returns [OF pos] by blast
  show ?thesis
  proof (cases "config_get (cfg_compute_ci cfg) False")
    case True
    show ?thesis
    proof (cases "ps = []")
      case empty: True
      with assms b bl True show ?thesis by (simp add: run_simulation_def Let_def)
    next
      case False
      with assms b bl True show ?thesis by (auto simp: run_simulation_def Let_def)
    qed
  next
    case False
    with assms b show ?thesis
      by (auto simp: run_simulation_def Let_def)
  qed
qed

subsection \<open>Rounding\<close>

lemma decimal_unit:
  assumes "0 \<le> x" and "x \<le> 1"
  shows "0 \<le> real_of_int (round_half_even (x * 10000)) / 10000"
    and "real_of_int (round_half_even (x * 10000)) / 10000 \<le> 1"
    and "\<bar>real_of_int (round_half_even (x * 10000)) / 10000 - x\<bar> \<le> 1 / 20000"
proof -
  from assms(1) have "0 \<le> round_half_even (x * 10000)"
    by (intro round_half_even_lower) simp
  then show "0 \<le> real_of_int (round_half_even (x * 10000)) / 10000" by simp
  from assms(2) have "x * 10000 \<le> of_int 10000" by simp
  then have "round_half_even (x * 10000) \<le> 10000" by (rule round_half_even_upper)
  then have "real_of_int (round_half_even (x * 10000)) \<le> 10000"
    by (metis of_int_le_iff of_int_numeral)
  then show "real_of_int (round_half_even (x * 10000)) / 10000 \<le> 1" by simp
  have "\<bar>of_int (round_half_even (x * 10000)) - x * 10000\<bar> \<le> 1 / 2"
    by (rule round_half_even_err)
  then show "\<bar>real_of_int (round_half_even (x * 10000)) / 10000 - x\<bar> \<le> 1 / 20000"
    by (simp add: abs_le_iff field_simps)
qed

lemma py_round_unit:
  assumes "0 \<le> x" and "x \<le> 1"
  shows "0 \<le> py_round x 4" and "py_round x 4 \<le> 1"
proof -
  note d = decimal_unit [OF assms]
  from py_float_nonneg [OF d(1)] show "0 \<le> py_round x 4" by (simp add: py_round_def)
  from py_float_le_one [OF d(1) d(2)] show "py_round x 4 \<le> 1" by (simp add: py_round_def)
qed

lemma py_round_err:
  assumes "0 \<le> x" and "x \<le> 1"
  shows "\<bar>py_round x 4 - x\<bar> \<le> 1 / 20000 + 1 / 2 ^ 53"
proof -
  note d = decimal_unit [OF assms]
  let ?d = "real_of_int (round_half_even (x * 10000)) / 10000"
  from d(1) d(2) have "\<bar>?d\<bar> \<le> 1" by simp
  from py_float_err [OF this] have "\<bar>py_float ?d - ?d\<bar> \<le> 1 / 2 ^ 53" .
  with d(3) have "\<bar>py_float ?d - x\<bar> \<le> 1 / 20000 + 1 / 2 ^ 53" by linarith
  then show ?thesis by (simp add: py_round_def)
qed

lemma reported_share:
  assumes "0 \<le> q" and "q \<le> 1"
  shows "0 \<le> py_round (py_float q) 4" and "py_round (py_float q) 4 \<le> 1"
    and "\<bar>py_round (py_float q) 4 - q\<bar> \<le> 1 / 20000 + 1 / 2 ^ 52"
proof -
  have f0: "0 \<le> py_float q" using assms(1) by (rule py_float_nonneg)
  have f1: "py_float q \<le> 1" using assms by (rule py_float_le_one)
  from py_round_unit [OF f0 f1]
  show "0 \<le> py_round (py_float q) 4" and "py_round (py_float q) 4 \<le> 1" .
  from assms have "\<bar>q\<bar> \<le> 1" by simp
  from py_float_err [OF this] py_round_err [OF f0 f1]
  have "\<bar>py_round (py_float q) 4 - q\<bar> \<le> 1 / 20000 + 1 / 2 ^ 53 + 1 / 2 ^ 53" by linarith
  then show "\<bar>py_round (py_float q) 4 - q\<bar> \<le> 1 / 20000 + 1 / 2 ^ 52" by simp
qed

lemma sum_round_err:
  assumes "\<forall>v \<in> set vs. 0 \<le> f v \<and> f v \<le> 1"
  shows "\<bar>sum_list (map (\<lambda>v. py_round (py_float (f v)) 4) vs) - sum_list (map f vs)\<bar>
           \<le> real (length vs) * (1 / 20000 + 1 / 2 ^ 52)"
  using assms
proof (induction vs)
  case Nil
  then show ?case by simp
next
  case (Cons v vs)
  from Cons.prems have "0 \<le> f v" and "f v \<le> 1" by simp_all
  from reported_share(3) [OF this]
  have "\<bar>py_round (py_float (f v)) 4 - f v\<bar> \<le> 1 / 20000 + 1 / 2 ^ 52" .
  moreover have "\<bar>(py_round (py_float (f v)) 4
                    + sum_list (map (\<lambda>v. py_round (py_float (f v)) 4) vs))
                  - (f v + sum_list (map f vs))\<bar>
        \<le> \<bar>py_round (py_float (f v)) 4 - f v\<bar>
           + \<bar>sum_list (map (\<lambda>v. py_round (py_float (f v)) 4) vs) - sum_list (map f vs)\<bar>"
    by linarith
  moreover have "\<bar>sum_list (map (\<lambda>v. py_round (py_float (f v)) 4) vs) - sum_list (map f vs)\<bar>
           \<le> real (length vs) * (1 / 20000 + 1 / 2 ^ 52)"
    using Cons.IH Cons.prems by simp
  ultimately have "\<bar>(py_round (py_float (f v)) 4
                    + sum_list (map (\<lambda>v. py_round (py_float (f v)) 4) vs))
                  - (f v + sum_list (map f vs))\<bar>
        \<le> (1 / 20000 + 1 / 2 ^ 52) + real (length vs) * (1 / 20000 + 1 / 2 ^ 52)"
    by linarith
  then show ?case by (simp add: algebra_simps)
qed

lemma sum_list_quotients:
  "sum_list (map (\<lambda>v. real_of_int v / c) vs) = real_of_int (sum_list vs) / c"
  by (induction vs) (simp_all add: add_divide_distrib)

lemma nonneg_member_le_sum:
  "\<forall>v \<in> set vs. (0::int) \<le> v \<Longrightarrow> v \<in> set vs \<Longrightarrow> v \<le> sum_list vs"
proof (induction vs)
  case Nil
  then show ?case by simp
next
  case (Cons w vs)
  have "0 \<le> sum_list vs" using Cons.prems(1) by (simp add: sum_list_nonneg)
  with Cons show ?case by auto
qed

lemma rounded_values:
  "dict_values (map (\<lambda>(k, v). (k, f v)) pc) = map f (dict_values pc)"
  by (induction pc) (auto simp: dict_values_def)

lemma ranked_keys_length:
  assumes "distinct ks" and "\<forall>k \<in> set ks. state_ranks k \<noteq> 0"
  shows "length ks \<le> 9"
proof -
  have "set ks \<subseteq> {EntryLevel, Junior, MidLevel, Senior, Lead, Manager, Director, VP, CSuite}"
  proof
    fix k assume "k \<in> set ks"
    with assms(2) have "state_ranks k \<noteq> 0" by simp
    then show "k \<in> {EntryLevel, Junior, MidLevel, Senior, Lead, Manager, Director, VP, CSuite}"
      by (cases k) simp_all
  qed
  then have "card (set ks)
      \<le> card {EntryLevel, Junior, MidLevel, Senior, Lead, Manager, Director, VP, CSuite}"
    by (intro card_mono) simp_all
  with assms(1) show ?thesis by (simp add: distinct_card)
qed

subsection \<open>Peak histogram\<close>

lemma dict_get_set:
  "dict_get (dict_set m k' v) k d = (if k = k' then v else dict_get m k d)"
  by (induction m k' v rule: dict_set.induct) auto

lemma count_fold_get:
  "dict_get (foldl (\<lambda>pc r. dict_set pc (cd_peak r) (dict_get pc (cd_peak r) 0 + 1)) pc cs) k 0
     = dict_get pc k 0 + int (length (filter (\<lambda>r. cd_peak r = k) cs))"
  by (induction cs arbitrary: pc) (simp_all add: dict_get_set)

lemma count_peaks_get:
  "dict_get (count_peaks cs) k 0 = int (length (filter (\<lambda>r. cd_peak r = k) cs))"
  by (simp add: count_peaks_def count_fold_get)

lemma count_fold_keys:
  "set (dict_keys (foldl (\<lambda>pc r. dict_set pc (cd_peak r) (dict_get pc (cd_peak r) 0 + 1)) pc cs))
     = set (dict_keys pc) \<union> cd_peak ` set cs"
  by (induction cs arbitrary: pc) (auto simp: dict_set_keys)

lemma count_peaks_keys: "set (dict_keys (count_peaks cs)) = cd_peak ` set cs"
  by (simp add: count_peaks_def count_fold_keys) (simp add: dict_keys_def)

lemma rounded_keys:
  "dict_keys (map (\<lambda>(k, v). (k, f v)) pc) = dict_keys pc"
  by (induction pc) (auto simp: dict_keys_def)

subsection \<open>Peak role distribution\<close>

lemma three_careers_batch:
  "run_batch False ''medium'' 1 22 3 three_peaks_draws =
     Inr (\<lparr> director_prob = 0, retire_ages = [], unemployment_durations = [0, 0, 0],
            peak_counts = [(EntryLevel, 1), (Junior, 1), (MidLevel, 1)], total = 3 \<rparr>, sconst 0)"
proof -
  have r: "[0..<3] = [0, 1, 2]" by (simp add: upt_conv_Cons)
  show ?thesis
    unfolding run_batch_def three_peaks_draws_def py_range_def
    by (simp add: r sim_defs Let_def count_peaks_def get_peak_position_def List.map_filter_def
        py_float_0)
qed

lemma py_round_third: "py_round (py_float (1 / 3)) 4 = 6004199023210345 / 18014398509481984"
  by (simp add: py_round_def py_float_def float_exponent_def pow2_def round_half_even_def)

lemma three_careers_result:
  "run_simulation three_careers three_peaks_draws =
     Inr (\<lparr> director_probability_mean = 0, bootstrap_probs = None,
            retirement_age_sample = [], unemployment_years_sample = [0, 0, 0],
            peak_role = [(EntryLevel, 6004199023210345 / 18014398509481984),
                         (Junior, 6004199023210345 / 18014398509481984),
                         (MidLevel, 6004199023210345 / 18014398509481984)],
            total_simulations = 3,
            meta = \<lparr> mc_specialization = ''none'', mc_risk_level = ''medium'',
                     mc_iterations = 3, mc_max_years = 1, mc_starting_age = 22,
                     mc_compute_ci = False \<rparr> \<rparr>, sconst 0)"
  by (simp add: run_simulation_def three_careers_def config_get_def three_careers_batch
      py_round_third py_round_0)

lemma three_careers_run:
  "run_careers False ''medium'' 1 22 (py_range 3) [] three_peaks_draws =
     Inr ([\<lparr> cd_career = [EntryLevel, EntryLevel], cd_peak = EntryLevel,
              cd_profile = CareerProfile False ''medium'', cd_final_state = EntryLevel \<rparr>,
           \<lparr> cd_career = [EntryLevel, Junior], cd_peak = Junior,
              cd_profile = (CareerProfile False ''medium'')
                 \<lparr> momentum_score := 9 / 5, total_promotions := 1 \<rparr>,
              cd_final_state = Junior \<rparr>,
           \<lparr> cd_career = [EntryLevel, MidLevel], cd_peak = MidLevel,
              cd_profile = (CareerProfile False ''medium'')
                 \<lparr> momentum_score := 9 / 5, total_promotions := 1 \<rparr>,
              cd_final_state = MidLevel \<rparr>], sconst 0)"
proof -
  have r: "[0..<3] = [0, 1, 2]" by (simp add: upt_conv_Cons)
  show ?thesis
    unfolding three_peaks_draws_def py_range_def
    by (simp add: r sim_defs Let_def get_peak_position_def)
qed

lemma three_careers_valid: "valid_config three_careers"
  by (simp add: valid_config_def three_careers_def config_get_def)

text \<open>
  Claim C4 asks the values of \<open>distributions.peak_role\<close> to sum to 1 within \<open>1e-9\<close>.
  Each value is rounded to four decimals before it is stored. Three careers with three
  different peaks give three times \<open>round(1/3, 4)\<close>, the double nearest to 0.3333
  (\<open>6004199023210345 / 2 ^ 54\<close>), and they sum to 0.9999 and not to 1.
\<close>

theorem peak_role_sum_counterexample:
  "valid_config three_careers
   \<and> \<not> isl (run_simulation three_careers three_peaks_draws)
   \<and> dict_values (peak_role (fst (projr (run_simulation three_careers three_peaks_draws))))
       = [py_round (py_float (1 / 3)) 4, py_round (py_float (1 / 3)) 4,
          py_round (py_float (1 / 3)) 4]
   \<and> py_round (py_float (1 / 3)) 4 = py_float (3333 / 10000)
   \<and> \<not> \<bar>sum_list (dict_values (peak_role (fst (projr
             (run_simulation three_careers three_peaks_draws))))) - 1\<bar> \<le> 1 / 10 ^ 9"
  by (simp add: three_careers_valid three_careers_result dict_values_def py_round_third)
     (simp add: py_float_def float_exponent_def pow2_def round_half_even_def)

text \<open>
  Claim C4, amended. For every valid configuration \<open>run_simulation\<close> returns a result.
  Its \<open>peak_role\<close> mapping has one entry for each state that is the peak of a career of
  the primary batch, and the value of a state is \<open>round(count / total, 4)\<close>, where
  \<open>count\<close> is the number of careers of the batch with that peak and \<open>total\<close> the number
  of careers. Every value lies in the unit interval. The values sum to 1 within 0.00005
  for each entry of the mapping, plus the rounding error of the doubles (at most
  \<open>2 ^ (- 52)\<close> for each entry); the mapping has at most nine entries.
\<close>

theorem peak_role_distribution:
  assumes "valid_config cfg"
  shows "\<exists>res g' cs g1.
           run_simulation cfg g = Inr (res, g')
           \<and> run_careers (config_get (cfg_specialization cfg) ''none'' = ''early'')
                (config_get (cfg_risk_level cfg) ''medium'')
                (config_get (cfg_max_years cfg) 45) (config_get (cfg_starting_age cfg) 22)
                (py_range (config_get (cfg_iterations cfg) 2500)) [] g = Inr (cs, g1)
           \<and> peak_role res
               = map (\<lambda>(k, c). (k, py_round (py_float (real_of_int c / real (length cs))) 4))
                     (count_peaks cs)
           \<and> set (dict_keys (peak_role res)) = cd_peak ` set cs
           \<and> (\<forall>k. dict_get (count_peaks cs) k 0
                    = int (length (filter (\<lambda>r. cd_peak r = k) cs)))
           \<and> (\<forall>v \<in> set (dict_values (peak_role res)). 0 \<le> v \<and> v \<le> 1)
           \<and> \<bar>sum_list (dict_values (peak_role res)) - 1\<bar>
                \<le> real (length (peak_role res)) * (5 / 100000 + 1 / 2 ^ 52)
           \<and> length (peak_role res) \<le> 9"
proof -
  let ?es = "config_get (cfg_specialization cfg) ''none'' = ''early''"
  let ?rl = "config_get (cfg_risk_level cfg) ''medium''"
  let ?it = "config_get (cfg_iterations cfg) 2500"
  let ?my = "config_get (cfg_max_years cfg) 45"
  let ?sa = "config_get (cfg_starting_age cfg) 22"
  from assms have pos: "0 < ?it" and ci: "0 < config_get (cfg_ci_iterations cfg) 30"
    by (simp_all add: valid_config_def)
  from pos ci obtain res g' where run: "run_simulation cfg g = Inr (res, g')"
    using run_simulation_pos [of cfg g] by blast
  from run_simulation_result [OF run] obtain b g1 where
      b: "run_batch ?es ?rl ?my ?sa ?it g = Inr (b, g1)"
      and pr: "peak_role res
                = map (\<lambda>(k, v). (k, py_round (py_float (real_of_int v / real_of_int (total b))) 4))
                      (peak_counts b)"
    by blast
  from run_batch_fields [OF b] obtain cs where
      cs: "run_careers ?es ?rl ?my ?sa (py_range ?it) [] g = Inr (cs, g1)"
      and ne: "length cs \<noteq> 0"
      and t: "total b = int (length cs)" and pc: "peak_counts b = count_peaks cs"
    by blast
  note props = run_batch_props [OF b]
  let ?T = "real (length cs)"
  let ?vs = "dict_values (count_peaks cs)"
  let ?f = "\<lambda>c. real_of_int c / ?T"
  from ne have T: "0 < ?T" by simp
  have pr': "peak_role res = map (\<lambda>(k, c). (k, py_round (py_float (?f c)) 4)) (count_peaks cs)"
    by (simp add: pr pc t)
  from props(3) have nonneg: "\<forall>v \<in> set ?vs. 0 \<le> v"
      and dist: "distinct (dict_keys (count_peaks cs))"
      and ranked: "\<forall>k \<in> set (dict_keys (count_peaks cs)). state_ranks k \<noteq> 0"
    by (simp_all add: counts_ok_def pc)
  have total: "sum_list ?vs = int (length cs)" by (rule count_peaks_sum)
  have vals: "dict_values (peak_role res) = map (\<lambda>c. py_round (py_float (?f c)) 4) ?vs"
    by (simp add: pr' rounded_values)
  have share: "\<forall>c \<in> set ?vs. 0 \<le> ?f c \<and> ?f c \<le> 1"
  proof
    fix c assume c: "c \<in> set ?vs"
    from nonneg c have c0: "0 \<le> c" by simp
    from nonneg_member_le_sum [OF nonneg c] total have "c \<le> int (length cs)" by simp
    then have "real_of_int c \<le> ?T" by (metis of_int_le_iff of_int_of_nat_eq)
    with T c0 show "0 \<le> ?f c \<and> ?f c \<le> 1" by simp
  qed
  have unit: "\<forall>v \<in> set (dict_values (peak_role res)). 0 \<le> v \<and> v \<le> 1"
  proof
    fix v assume "v \<in> set (dict_values (peak_role res))"
    then obtain c where c: "c \<in> set ?vs" and v: "v = py_round (py_float (?f c)) 4"
      by (auto simp: vals)
    from share c have "0 \<le> ?f c" and "?f c \<le> 1" by simp_all
    from reported_share(1,2) [OF this] v show "0 \<le> v \<and> v \<le> 1" by simp
  qed
  have "sum_list (map ?f ?vs) = 1"
    using T by (simp add: sum_list_quotients total)
  with sum_round_err [of ?vs ?f, OF share]
  have "\<bar>sum_list (dict_values (peak_role res)) - 1\<bar>
          \<le> real (length ?vs) * (1 / 20000 + 1 / 2 ^ 52)"
    by (simp add: vals)
  moreover have len: "length (peak_role res) = length ?vs" by (simp add: pr' dict_values_def)
  ultimately have sum: "\<bar>sum_list (dict_values (peak_role res)) - 1\<bar>
                \<le> real (length (peak_role res)) * (5 / 100000 + 1 / 2 ^ 52)"
    by simp
  have "length (dict_keys (count_peaks cs)) \<le> 9"
    using dist ranked by (rule ranked_keys_length)
  then have nine: "length (peak_role res) \<le> 9" by (simp add: pr' dict_keys_def)
  have keys: "set (dict_keys (peak_role res)) = cd_peak ` set cs"
    by (simp add: pr' rounded_keys count_peaks_keys)
  have counts: "\<forall>k. dict_get (count_peaks cs) k 0
                    = int (length (filter (\<lambda>r. cd_peak r = k) cs))"
    by (simp add: count_peaks_get)
  from run cs pr' keys counts unit sum nine show ?thesis by blast
qed

theorem peak_role_distribution_witness:
  "valid_config three_careers
   \<and> run_simulation three_careers three_peaks_draws
       = Inr (\<lparr> director_probability_mean = 0, bootstrap_probs = None,
            retirement_age_sample = [], unemployment_years_sample = [0, 0, 0],
            peak_role = [(EntryLevel, py_round (py_float (1 / 3)) 4),
                         (Junior, py_round (py_float (1 / 3)) 4),
                         (MidLevel, py_round (py_float (1 / 3)) 4)],
            total_simulations = 3,
            meta = \<lparr> mc_specialization = ''none'', mc_risk_level = ''medium'',
                     mc_iterations = 3, mc_max_years = 1, mc_starting_age = 22,
                     mc_compute_ci = False \<rparr> \<rparr>, sconst 0)
   \<and> py_round (py_float (1 / 3)) 4 = 6004199023210345 / 18014398509481984
   \<and> \<bar>sum_list [6004199023210345 / 18014398509481984, 6004199023210345 / 18014398509481984,
                 6004199023210345 / 18014398509481984 :: real] - 1\<bar>
        \<le> 3 * (5 / 100000 + 1 / 2 ^ 52)"
  using peak_role_distribution [OF three_careers_valid, of three_peaks_draws]
  by (simp add: three_careers_valid three_careers_result py_round_third)

lemma peak_role_keys_ranked:
  assumes "run_simulation cfg g = Inr (res, g')"
  shows "\<forall>k \<in> set (dict_keys (peak_role res)). state_ranks k \<noteq> 0"
proof -
  from run_simulation_result [OF assms] obtain b g1 where
      b: "run_batch (config_get (cfg_specialization cfg) ''none'' = ''early'')
            (config_get (cfg_risk_level cfg) ''medium'')
            (config_get (cfg_max_years cfg) 45) (config_get (cfg_starting_age cfg) 22)
            (config_get (cfg_iterations cfg) 2500) g = Inr (b, g1)"
      and pr: "peak_role res
                = map (\<lambda>(k, v). (k, py_round (py_float (real_of_int v / real_of_int (total b))) 4))
                      (peak_counts b)"
    by blast
  from run_batch_props(3) [OF b] have "\<forall>k \<in> set (dict_keys (peak_counts b)). state_ranks k \<noteq> 0"
    by (simp add: counts_ok_def)
  then show ?thesis by (simp add: pr rounded_keys)
qed

text \<open>
  Claim C10. \<open>get_peak_position\<close> never returns Unemployed or Retired, and returns
  Entry Level for a career without a state of positive rank, visited or not; so no
  \<open>peak_role\<close> mapping that \<open>run_simulation\<close> returns has the key Unemployed or Retired.
\<close>

theorem peak_never_rank_zero:
  "get_peak_position career \<noteq> Unemployed \<and> get_peak_position career \<noteq> Retired
   \<and> ((\<forall>s \<in> set career. state_ranks s \<le> 0) \<longrightarrow> get_peak_position career = EntryLevel)
   \<and> (run_simulation cfg g = Inr (res, g') \<longrightarrow>
        Unemployed \<notin> set (dict_keys (peak_role res)) \<and> Retired \<notin> set (dict_keys (peak_role res)))"
proof -
  have "state_ranks (get_peak_position career) \<noteq> 0" by (rule get_peak_position_rank)
  then have a: "get_peak_position career \<noteq> Unemployed \<and> get_peak_position career \<noteq> Retired"
    by auto
  have b: "(\<forall>s \<in> set career. state_ranks s \<le> 0) \<longrightarrow> get_peak_position career = EntryLevel"
    by (simp add: get_peak_position_default)
  have c: "run_simulation cfg g = Inr (res, g') \<longrightarrow>
        Unemployed \<notin> set (dict_keys (peak_role res)) \<and> Retired \<notin> set (dict_keys (peak_role res))"
  proof
    assume "run_simulation cfg g = Inr (res, g')"
    from peak_role_keys_ranked [OF this] show
      "Unemployed \<notin> set (dict_keys (peak_role res)) \<and> Retired \<notin> set (dict_keys (peak_role res))"
      by auto
  qed
  from a b c show ?thesis by blast
qed

theorem peak_never_rank_zero_witness:
  "state_ranks Unemployed \<le> 0 \<and> state_ranks Retired \<le> 0
   \<and> get_peak_position [Unemployed, Retired, Unemployed] = EntryLevel
   \<and> \<not> isl (run_simulation three_careers three_peaks_draws)
   \<and> dict_keys (peak_role (fst (projr (run_simulation three_careers three_peaks_draws))))
       = [EntryLevel, Junior, MidLevel]
   \<and> Unemployed \<notin> set [EntryLevel, Junior, MidLevel]
   \<and> Retired \<notin> set [EntryLevel, Junior, MidLevel]"
  using peak_never_rank_zero [of "[Unemployed, Retired, Unemployed]" three_careers
          three_peaks_draws _ "sconst 0"] three_careers_result
  by (simp add: dict_keys_def)

subsection \<open>Configuration handling\<close>

lemma unchecked_config_result:
  "run_simulation unchecked_config (sconst 0) =
     Inr (\<lparr> director_probability_mean = 0, bootstrap_probs = None,
            retirement_age_sample = [], unemployment_years_sample = [0],
            peak_role = [(EntryLevel, 1)], total_simulations = 1,
            meta = \<lparr> mc_specialization = ''none'', mc_risk_level = ''extreme'',
                     mc_iterations = 1, mc_max_years = 0, mc_starting_age = 22,
                     mc_compute_ci = False \<rparr> \<rparr>, sconst 0)"
  by (simp add: run_simulation_def unchecked_config_def config_get_def run_batch_def
      py_range_def simulate_career_def CareerProfile_def count_peaks_def get_peak_position_def
      List.map_filter_def py_float_0 py_float_1 py_round_0 py_round_1)

lemma unrecognized_risk_rows:
  assumes "risk_tolerance p \<noteq> ''high''" and "risk_tolerance p \<noteq> ''low''"
  shows "apply_decision_modifiers p t s y
           = apply_decision_modifiers (p\<lparr>risk_tolerance := ''medium''\<rparr>) t s y"
  using assms
  by (simp add: apply_decision_modifiers_def modified_row_def risk_effect_def
      specialization_effect_def)

lemma no_years_career:
  "my \<le> 0 \<Longrightarrow>
   simulate_career my sa prof g
     = Inr ([EntryLevel], (case prof of None \<Rightarrow> CareerProfile False ''medium'' | Some q \<Rightarrow> q), g)"
  by (simp add: simulate_career_def py_range_def)

text \<open>
  Claim C1 says that \<open>run_simulation\<close> rejects, with a configuration error and before
  any simulation work, a configuration with a non-positive \<open>iterations\<close>,
  \<open>ci_iterations\<close> or \<open>max_years\<close> or with an unrecognized \<open>risk_level\<close> or
  \<open>specialization\<close>. The function checks nothing. \<open>unchecked_config\<close> has an unknown
  specialization and risk level, \<open>max_years = 0\<close> and \<open>ci_iterations = 0\<close>, and the run
  returns a result that echoes the risk level \<open>extreme\<close>; with \<open>iterations = 0\<close> the run
  fails in the division of \<open>run_batch\<close>, with \<open>ZeroDivisionError\<close>.
\<close>

theorem no_configuration_check_counterexample:
  "\<not> valid_config unchecked_config
   \<and> \<not> isl (run_simulation unchecked_config (sconst 0))
   \<and> mc_risk_level (meta (fst (projr (run_simulation unchecked_config (sconst 0))))) = ''extreme''
   \<and> run_simulation zero_iterations (sconst 0) = Inl ZeroDivisionError"
  by (simp add: unchecked_config_result run_simulation_zero zero_iterations_def config_get_def)
     (simp add: valid_config_def unchecked_config_def config_get_def)

text \<open>
  Claim C1, amended. \<open>run_simulation\<close> validates no setting; what it does with a
  configuration is decided by \<open>iterations\<close>, \<open>compute_ci\<close> and \<open>ci_iterations\<close> alone.
  \<^item> With \<open>iterations\<close> not positive it fails with \<open>ZeroDivisionError\<close>, raised by the
    division of \<open>run_batch\<close> after a batch of no careers.
  \<^item> Otherwise, with \<open>compute_ci\<close> true and \<open>ci_iterations\<close> not positive, it fails
    with the \<open>IndexError\<close> of \<open>np.percentile\<close> on the empty bootstrap sample, after the
    primary batch has run.
  \<^item> In every other case it returns a result, whatever \<open>max_years\<close>, \<open>risk_level\<close> and
    \<open>specialization\<close> are: the result is that of the primary \<open>run_batch\<close>, run with
    \<open>early_spec = (specialization == "early")\<close> and with the risk level, horizon,
    starting age and iterations as given, and it echoes the risk level and the horizon
    as given and the specialization as \<open>early\<close> or \<open>none\<close>.
  \<^item> A profile whose risk tolerance is neither \<open>high\<close> nor \<open>low\<close> gets from
    \<open>apply_decision_modifiers\<close> the rows of a \<open>medium\<close> profile.
  \<^item> With a horizon that is not positive, \<open>simulate_career\<close> returns the one-entry
    trajectory \<open>[Entry Level]\<close>, the profile and the generator untouched.
\<close>

theorem no_configuration_check:
  "(if config_get (cfg_iterations cfg) 2500 \<le> 0
    then run_simulation cfg g = Inl ZeroDivisionError
    else if config_get (cfg_compute_ci cfg) False \<and> config_get (cfg_ci_iterations cfg) 30 \<le> 0
    then run_simulation cfg g = Inl IndexError
    else (\<exists>res g' b g1.
            run_simulation cfg g = Inr (res, g')
            \<and> run_batch (config_get (cfg_specialization cfg) ''none'' = ''early'')
                 (config_get (cfg_risk_level cfg) ''medium'')
                 (config_get (cfg_max_years cfg) 45) (config_get (cfg_starting_age cfg) 22)
                 (config_get (cfg_iterations cfg) 2500) g = Inr (b, g1)
            \<and> peak_role res
                = map (\<lambda>(k, v). (k, py_round (py_float (real_of_int v / real_of_int (total b))) 4))
                      (peak_counts b)
            \<and> director_probability_mean res = py_round (director_prob b) 4
            \<and> retirement_age_sample res = retire_ages b
            \<and> mc_specialization (meta res)
                = (if config_get (cfg_specialization cfg) ''none'' = ''early''
                   then ''early'' else ''none'')
            \<and> mc_risk_level (meta res) = config_get (cfg_risk_level cfg) ''medium''
            \<and> mc_max_years (meta res) = config_get (cfg_max_years cfg) 45))
   \<and> (risk_tolerance p \<noteq> ''high'' \<and> risk_tolerance p \<noteq> ''low'' \<longrightarrow>
        apply_decision_modifiers p t s y
          = apply_decision_modifiers (p\<lparr>risk_tolerance := ''medium''\<rparr>) t s y)
   \<and> (my \<le> 0 \<longrightarrow>
        simulate_career my sa prof g0
          = Inr ([EntryLevel],
                 (case prof of None \<Rightarrow> CareerProfile False ''medium'' | Some q \<Rightarrow> q), g0))"
proof -
  have run: "if config_get (cfg_iterations cfg) 2500 \<le> 0
    then run_simulation cfg g = Inl ZeroDivisionError
    else if config_get (cfg_compute_ci cfg) False \<and> config_get (cfg_ci_iterations cfg) 30 \<le> 0
    then run_simulation cfg g = Inl IndexError
    else (\<exists>res g' b g1.
            run_simulation cfg g = Inr (res, g')
            \<and> run_batch (config_get (cfg_specialization cfg) ''none'' = ''early'')
                 (config_get (cfg_risk_level cfg) ''medium'')
                 (config_get (cfg_max_years cfg) 45) (config_get (cfg_starting_age cfg) 22)
                 (config_get (cfg_iterations cfg) 2500) g = Inr (b, g1)
            \<and> peak_role res
                = map (\<lambda>(k, v). (k, py_round (py_float (real_of_int v / real_of_int (total b))) 4))
                      (peak_counts b)
            \<and> director_probability_mean res = py_round (director_prob b) 4
            \<and> retirement_age_sample res = retire_ages b
            \<and> mc_specialization (meta res)
                = (if config_get (cfg_specialization cfg) ''none'' = ''early''
                   then ''early'' else ''none'')
            \<and> mc_risk_level (meta res) = config_get (cfg_risk_level cfg) ''medium''
            \<and> mc_max_years (meta res) = config_get (cfg_max_years cfg) 45)"
  proof (cases "config_get (cfg_iterations cfg) 2500 \<le> 0")
    case True
    then show ?thesis by (simp add: run_simulation_zero)
  next
    case False
    then have pos: "0 < config_get (cfg_iterations cfg) 2500" by simp
    show ?thesis
    proof (cases "config_get (cfg_compute_ci cfg) False
                  \<and> config_get (cfg_ci_iterations cfg) 30 \<le> 0")
      case True
      with pos False show ?thesis by (simp add: run_simulation_empty_bootstrap)
    next
      case nonempty: False
      then have "config_get (cfg_compute_ci cfg) False
                 \<Longrightarrow> 0 < config_get (cfg_ci_iterations cfg) 30"
        by auto
      from run_simulation_pos [OF pos this] obtain res g' where
        r: "run_simulation cfg g = Inr (res, g')"
        by blast
      from run_simulation_result [OF r] r have
        "\<exists>res g' b g1.
            run_simulation cfg g = Inr (res, g')
            \<and> run_batch (config_get (cfg_specialization cfg) ''none'' = ''early'')
                 (config_get (cfg_risk_level cfg) ''medium'')
                 (config_get (cfg_max_years cfg) 45) (config_get (cfg_starting_age cfg) 22)
                 (config_get (cfg_iterations cfg) 2500) g = Inr (b, g1)
            \<and> peak_role res
                = map (\<lambda>(k, v). (k, py_round (py_float (real_of_int v / real_of_int (total b))) 4))
                      (peak_counts b)
            \<and> director_probability_mean res = py_round (director_prob b) 4
            \<and> retirement_age_sample res = retire_ages b
            \<and> mc_specialization (meta res)
                = (if config_get (cfg_specialization cfg) ''none'' = ''early''
                   then ''early'' else ''none'')
            \<and> mc_risk_level (meta res) = config_get (cfg_risk_level cfg) ''medium''
            \<and> mc_max_years (meta res) = config_get (cfg_max_years cfg) 45"
        by blast
      with False nonempty show ?thesis by (simp only: if_False)
    qed
  qed
  have risk: "risk_tolerance p \<noteq> ''high'' \<and> risk_tolerance p \<noteq> ''low'' \<longrightarrow>
        apply_decision_modifiers p t s y
          = apply_decision_modifiers (p\<lparr>risk_tolerance := ''medium''\<rparr>) t s y"
    using unrecognized_risk_rows by blast
  have years: "my \<le> 0 \<longrightarrow>
        simulate_career my sa prof g0
          = Inr ([EntryLevel],
                 (case prof of None \<Rightarrow> CareerProfile False ''medium'' | Some q \<Rightarrow> q), g0)"
    using no_years_career by blast
  from run risk years show ?thesis by (intro conjI)
qed

theorem no_configuration_check_witness:
  "run_simulation unchecked_config (sconst 0) =
     Inr (\<lparr> director_probability_mean = 0, bootstrap_probs = None,
            retirement_age_sample = [], unemployment_years_sample = [0],
            peak_role = [(EntryLevel, 1)], total_simulations = 1,
            meta = \<lparr> mc_specialization = ''none'', mc_risk_level = ''extreme'',
                     mc_iterations = 1, mc_max_years = 0, mc_starting_age = 22,
                     mc_compute_ci = False \<rparr> \<rparr>, sconst 0)
   \<and> run_simulation zero_iterations (sconst 0) = Inl ZeroDivisionError
   \<and> run_simulation empty_bootstrap (sconst 0) = Inl IndexError
   \<and> risk_tolerance (CareerProfile False ''extreme'') \<noteq> ''high''
   \<and> risk_tolerance (CareerProfile False ''extreme'') \<noteq> ''low''
   \<and> apply_decision_modifiers (CareerProfile False ''extreme'') (TRANSITIONS Unemployed)
         Unemployed 0
       = apply_decision_modifiers ((CareerProfile False ''extreme'')\<lparr>risk_tolerance := ''medium''\<rparr>)
           (TRANSITIONS Unemployed) Unemployed 0
   \<and> (0::int) \<le> 0
   \<and> simulate_career 0 22 None (sconst 0)
       = Inr ([EntryLevel], CareerProfile False ''medium'', sconst 0)"
proof -
  have r: "risk_tolerance (CareerProfile False ''extreme'') \<noteq> ''high''
           \<and> risk_tolerance (CareerProfile False ''extreme'') \<noteq> ''low''"
    by (simp add: CareerProfile_def)
  have z: "config_get (cfg_iterations zero_iterations) 2500 \<le> 0"
    by (simp add: zero_iterations_def config_get_def)
  have e: "\<not> config_get (cfg_iterations empty_bootstrap) 2500 \<le> 0"
          "config_get (cfg_compute_ci empty_bootstrap) False
           \<and> config_get (cfg_ci_iterations empty_bootstrap) 30 \<le> 0"
    by (simp_all add: empty_bootstrap_def config_get_def)
  from no_configuration_check
         [of unchecked_config "sconst 0" "CareerProfile False ''extreme''" "TRANSITIONS Unemployed"
             Unemployed 0 0 22 None "sconst 0"]
       no_configuration_check
         [of zero_iterations "sconst 0" "CareerProfile False ''extreme''" "TRANSITIONS Unemployed"
             Unemployed 0 0 22 None "sconst 0"]
       no_configuration_check
         [of empty_bootstrap "sconst 0" "CareerProfile False ''extreme''" "TRANSITIONS Unemployed"
             Unemployed 0 0 22 None "sconst 0"]
  show ?thesis
    using r z e by (simp add: unchecked_config_result)
qed

subsection \<open>Comparative analysis\<close>

lemma early_exit_career_tail:
  assumes "(es, rl) \<in> {(False, ''medium''), (True, ''medium''), (False, ''high'')}"
  shows "simulate_career 45 22 (Some (CareerProfile es rl)) (0 ## (9/10) ## 0 ## (99/100) ## g) =
     Inr (EntryLevel # Unemployed # replicate 44 Retired,
          \<lparr> early_specialization = es, risk_tolerance = rl,
            unemployment_history = [0], burnout_score = 0, momentum_score = 0,
            total_demotions = 1, total_promotions = 0 \<rparr>, g)"
proof -
  have r: "[0..<45] = 0 # 1 # [2..<45]" by (simp add: upt_conv_Cons)
  from assms show ?thesis
    unfolding simulate_career_def py_range_def
    apply (simp add: r)
    apply (elim disjE)
      apply (simp_all add: simulate_year_def Let_def CareerProfile_def update_burnout_def
        update_momentum_def get_retirement_probability_def random_random_def
        apply_decision_modifiers_def modifier_defs choices_def accumulate_def bisect_right.simps
        simulate_years_Retired)
      apply (simp_all add: numeral_eq_Suc)
    done
qed

lemma list_index_replicate: "0 < n \<Longrightarrow> list_index (replicate n x) x = Some 0"
  by (cases n) simp_all

lemma early_exit_peak:
  "get_peak_position (EntryLevel # Unemployed # replicate 44 Retired) = EntryLevel"
proof -
  have "peak_loop (replicate n Retired) (1, EntryLevel) = (1, EntryLevel)" for n
    by (rule peak_loop_no_positive) simp
  then show ?thesis by (simp add: get_peak_position_def)
qed

lemma early_exit_simulation:
  assumes "(es, rl) \<in> {(False, ''medium''), (True, ''medium''), (False, ''high'')}"
  shows "run_simulation (intervention (if es then ''early'' else ''none'') rl 1 False)
           (0 ## (9/10) ## 0 ## (99/100) ## g) =
     Inr (\<lparr> director_probability_mean = 0, bootstrap_probs = None,
            retirement_age_sample = [24], unemployment_years_sample = [1],
            peak_role = [(EntryLevel, 1)], total_simulations = 1,
            meta = \<lparr> mc_specialization = (if es then ''early'' else ''none''),
                     mc_risk_level = rl,
                     mc_iterations = 1, mc_max_years = 45, mc_starting_age = 22,
                     mc_compute_ci = False \<rparr> \<rparr>, g)"
proof -
  have es: "((if es then ''early'' else ''none'') = ''early'') = es" by simp
  show ?thesis
    by (simp add: run_simulation_def intervention_def config_get_def es run_batch_def
        py_range_def early_exit_career_tail [OF assms] list_index_replicate early_exit_peak
        count_peaks_def List.map_filter_def py_float_0 py_float_1 py_round_0 py_round_1)
qed


lemma intervention_iterations:
  "config_get (cfg_iterations (intervention spec risk iterations compute_ci)) 2500 = iterations"
  "config_get (cfg_risk_level (intervention spec risk iterations compute_ci)) ''medium'' = risk"
  "config_get (cfg_specialization (intervention spec risk iterations compute_ci)) ''none'' = spec"
  "config_get (cfg_ci_iterations (intervention spec risk iterations compute_ci)) 30 = 30"
  by (simp_all add: intervention_def config_get_def)

text \<open>
  Claim C5. For a positive number of iterations, \<open>run_comparative_analysis\<close> returns
  the results of three runs of \<open>run_simulation\<close>, made in this order on the same
  generator: control (none, medium), specialist (early, medium) and risktaker (none,
  high), each result echoing its configuration; and the two deltas are the achievement
  rate of the specialist, and of the risktaker, minus that of the control, rounded to
  four decimals.
\<close>

theorem comparative_analysis_deltas:
  assumes "0 < iterations"
  shows "\<exists>res g1 g2 g3.
           run_comparative_analysis iterations compute_ci g = Inr (res, g3)
           \<and> run_simulation (intervention ''none'' ''medium'' iterations compute_ci) g
               = Inr (control res, g1)
           \<and> run_simulation (intervention ''early'' ''medium'' iterations compute_ci) g1
               = Inr (specialist res, g2)
           \<and> run_simulation (intervention ''none'' ''high'' iterations compute_ci) g2
               = Inr (risktaker res, g3)
           \<and> mc_specialization (meta (control res)) = ''none''
           \<and> mc_risk_level (meta (control res)) = ''medium''
           \<and> mc_specialization (meta (specialist res)) = ''early''
           \<and> mc_risk_level (meta (specialist res)) = ''medium''
           \<and> mc_specialization (meta (risktaker res)) = ''none''
           \<and> mc_risk_level (meta (risktaker res)) = ''high''
           \<and> specialist_vs_control res
               = py_round (py_float (director_probability_mean (specialist res)
                                     - director_probability_mean (control res))) 4
           \<and> risktaker_vs_control res
               = py_round (py_float (director_probability_mean (risktaker res)
                                     - director_probability_mean (control res))) 4"
proof -
  let ?c = "intervention ''none'' ''medium'' iterations compute_ci"
  let ?s = "intervention ''early'' ''medium'' iterations compute_ci"
  let ?r = "intervention ''none'' ''high'' iterations compute_ci"
  from assms obtain rc g1 where c: "run_simulation ?c g = Inr (rc, g1)"
    using run_simulation_pos [of ?c g] by (auto simp: intervention_iterations)
  from assms obtain rs g2 where s: "run_simulation ?s g1 = Inr (rs, g2)"
    using run_simulation_pos [of ?s g1] by (auto simp: intervention_iterations)
  from assms obtain rr g3 where r: "run_simulation ?r g2 = Inr (rr, g3)"
    using run_simulation_pos [of ?r g2] by (auto simp: intervention_iterations)
  let ?res = "\<lparr> control = rc, specialist = rs, risktaker = rr,
                 specialist_vs_control =
                   py_round (py_float (director_probability_mean rs
                                       - director_probability_mean rc)) 4,
                 risktaker_vs_control =
                   py_round (py_float (director_probability_mean rr
                                       - director_probability_mean rc)) 4 \<rparr>"
  have run: "run_comparative_analysis iterations compute_ci g = Inr (?res, g3)"
    by (simp add: run_comparative_analysis_def c s r Let_def)
  from run_simulation_result [OF c]
  have mc: "mc_specialization (meta rc) = ''none''" "mc_risk_level (meta rc) = ''medium''"
    by (auto simp: intervention_iterations)
  from run_simulation_result [OF s]
  have ms: "mc_specialization (meta rs) = ''early''" "mc_risk_level (meta rs) = ''medium''"
    by (auto simp: intervention_iterations)
  from run_simulation_result [OF r]
  have mr: "mc_specialization (meta rr) = ''none''" "mc_risk_level (meta rr) = ''high''"
    by (auto simp: intervention_iterations)
  show ?thesis
    apply (rule exI [of _ ?res], rule exI [of _ g1], rule exI [of _ g2], rule exI [of _ g3])
    apply (simp add: run c s r mc ms mr)
    done
qed

lemma comparative_run:
  "run_comparative_analysis 1 False comparative_draws =
     Inr (\<lparr> control = \<lparr> director_probability_mean = 0, bootstrap_probs = None,
            retirement_age_sample = [24], unemployment_years_sample = [1],
            peak_role = [(EntryLevel, 1)], total_simulations = 1,
            meta = \<lparr> mc_specialization = ''none'', mc_risk_level = ''medium'',
                     mc_iterations = 1, mc_max_years = 45, mc_starting_age = 22,
                     mc_compute_ci = False \<rparr> \<rparr>,
            specialist = \<lparr> director_probability_mean = 0, bootstrap_probs = None,
            retirement_age_sample = [24], unemployment_years_sample = [1],
            peak_role = [(EntryLevel, 1)], total_simulations = 1,
            meta = \<lparr> mc_specialization = ''early'', mc_risk_level = ''medium'',
                     mc_iterations = 1, mc_max_years = 45, mc_starting_age = 22,
                     mc_compute_ci = False \<rparr> \<rparr>,
            risktaker = \<lparr> director_probability_mean = 0, bootstrap_probs = None,
            retirement_age_sample = [24], unemployment_years_sample = [1],
            peak_role = [(EntryLevel, 1)], total_simulations = 1,
            meta = \<lparr> mc_specialization = ''none'', mc_risk_level = ''high'',
                     mc_iterations = 1, mc_max_years = 45, mc_starting_age = 22,
                     mc_compute_ci = False \<rparr> \<rparr>,
            specialist_vs_control = 0, risktaker_vs_control = 0 \<rparr>, sconst 0)"
proof -
  have a: "(False, ''medium'') \<in> {(False, ''medium''), (True, ''medium''), (False, ''high'')}"
    and b: "(True, ''medium'') \<in> {(False, ''medium''), (True, ''medium''), (False, ''high'')}"
    and c: "(False, ''high'') \<in> {(False, ''medium''), (True, ''medium''), (False, ''high'')}"
    by simp_all
  show ?thesis
    unfolding run_comparative_analysis_def comparative_draws_def
    using early_exit_simulation [OF a] early_exit_simulation [OF b] early_exit_simulation [OF c]
    by (simp add: py_float_0 py_round_0)
qed

theorem comparative_analysis_deltas_witness:
  "(0::int) < 1
   \<and> \<not> isl (run_comparative_analysis 1 False comparative_draws)
   \<and> mc_specialization (meta (specialist (fst (projr
        (run_comparative_analysis 1 False comparative_draws))))) = ''early''
   \<and> mc_risk_level (meta (risktaker (fst (projr
        (run_comparative_analysis 1 False comparative_draws))))) = ''high''
   \<and> specialist_vs_control (fst (projr (run_comparative_analysis 1 False comparative_draws)))
       = py_round (py_float (0 - 0)) 4"
proof -
  have h: "(0::int) < 1" by simp
  show ?thesis
    using h comparative_analysis_deltas [OF h, of False comparative_draws]
    by (simp add: comparative_run py_float_0 py_round_0)
qed

end
